theory Spec2Isabelle
  imports Complex_Main "HOL-Library.AList"
begin

section \<open>Exceptions as values\<close>

text \<open>
  The loader signals failure by raising. Each exception class that the modelled code (or
  a library call it makes) can raise is a constructor; a computation returns
  \<open>Inl e\<close> when it raises \<open>e\<close> and \<open>Inr v\<close> when it returns \<open>v\<close>. A
  \<open>ValueError\<close> carries its message, shortened to the part that does not depend on
  the offending value. \<open>InvalidArgumentError\<close> stands for TensorFlow's errors on
  arguments of the wrong rank or shape.
\<close>

datatype exn =
    IndexError
  | ValueError string
  | ZeroDivisionError
  | UnboundLocalError
  | FileNotFoundError
  | InvalidArgumentError

definition bind_r :: "exn + 'a \<Rightarrow> ('a \<Rightarrow> exn + 'b) \<Rightarrow> exn + 'b" where
  "bind_r m f = (case m of Inl e \<Rightarrow> Inl e | Inr v \<Rightarrow> f v)"

section \<open>Dense arrays\<close>

text \<open>
  A numpy array or TensorFlow tensor is its shape together with its elements in row-major
  (C) order, which is the order \<open>tf.reshape\<close> preserves.
\<close>

record 'a tensor =
  shape :: "nat list"
  data :: "'a list"

text \<open>An array has as many elements as its shape says.\<close>

definition wf_tensor :: "'a tensor \<Rightarrow> bool" where
  "wf_tensor a \<longleftrightarrow> length (data a) = prod_list (shape a)"

text \<open>
  The position of an index in the element list (\<open>np.ravel_multi_index\<close>) and the index
  at a position (\<open>np.unravel_index\<close>), for a given shape.
\<close>

fun ravel :: "nat list \<Rightarrow> nat list \<Rightarrow> nat" where
  "ravel (n # s) (i # idx) = i * prod_list s + ravel s idx"
| "ravel _ _ = 0"

fun unravel :: "nat list \<Rightarrow> nat \<Rightarrow> nat list" where
  "unravel [] k = []"
| "unravel (n # s) k = (k div prod_list s) # unravel s (k mod prod_list s)"

text \<open>\<open>a[i0, i1, ...]\<close> for an index within the shape.\<close>

definition elem :: "'a tensor \<Rightarrow> nat list \<Rightarrow> 'a" where
  "elem a idx = data a ! ravel (shape a) idx"

text \<open>The array of a given shape whose element at each index is given by a function.\<close>

definition tabulate :: "nat list \<Rightarrow> (nat list \<Rightarrow> 'a) \<Rightarrow> 'a tensor" where
  "tabulate s f = \<lparr>shape = s, data = map (\<lambda>k. f (unravel s k)) [0..<prod_list s]\<rparr>"

text \<open>\<open>a[:n0, :n1, ...]\<close>: a slice bound beyond the axis length is clamped to it.\<close>

definition take_axes :: "nat list \<Rightarrow> 'a tensor \<Rightarrow> 'a tensor" where
  "take_axes ns a = tabulate (map2 min ns (shape a)) (elem a)"

text \<open>\<open>tf.reshape\<close>: the element count must not change.\<close>

definition reshape :: "'a tensor \<Rightarrow> nat list \<Rightarrow> exn + 'a tensor" where
  "reshape a s =
     (if prod_list s = length (data a) then Inr (a\<lparr>shape := s\<rparr>) else Inl InvalidArgumentError)"

text \<open>\<open>tf.expand_dims(a, k)\<close> for \<open>0 \<le> k \<le> rank\<close>; \<open>k = rank\<close> is the source's \<open>-1\<close>.\<close>

definition expand_dims :: "'a tensor \<Rightarrow> nat \<Rightarrow> exn + 'a tensor" where
  "expand_dims a k =
     (if k \<le> length (shape a)
      then Inr (a\<lparr>shape := take k (shape a) @ [1] @ drop k (shape a)\<rparr>)
      else Inl InvalidArgumentError)"

text \<open>
  \<open>tf.image.extract_patches(a, [1, ps, ps, 1], [1, ps, ps, 1], rates=[1, 1, 1, 1],
  padding="SAME")\<close> on a 4D tensor \<open>(batch, rows, cols, depth)\<close>. With SAME padding
  the output has \<open>ceil(rows / ps)\<close> by \<open>ceil(cols / ps)\<close> positions; the window at
  position \<open>(pr, pc)\<close> starts at row \<open>pr * ps - pad_top\<close>, and reads outside the image
  give zero. The last axis of the output holds the window flattened as
  (row in window, column in window, depth).
\<close>

definition same_out :: "nat \<Rightarrow> nat \<Rightarrow> nat" where
  "same_out n ps = (n + ps - 1) div ps"

definition same_pad :: "nat \<Rightarrow> nat \<Rightarrow> int" where
  "same_pad n ps = max 0 ((int (same_out n ps) - 1) * int ps + int ps - int n) div 2"

definition padded_read :: "'a::zero tensor \<Rightarrow> nat \<Rightarrow> int \<Rightarrow> int \<Rightarrow> nat \<Rightarrow> 'a" where
  "padded_read a b r c d =
     (if 0 \<le> r \<and> r < int (shape a ! 1) \<and> 0 \<le> c \<and> c < int (shape a ! 2)
      then elem a [b, nat r, nat c, d] else 0)"

definition extract_patches :: "'a::zero tensor \<Rightarrow> nat \<Rightarrow> exn + 'a tensor" where
  "extract_patches a ps =
     (if length (shape a) \<noteq> 4 \<or> ps = 0 then Inl InvalidArgumentError
      else
        let R = shape a ! 1; C = shape a ! 2; D = shape a ! 3
        in Inr (tabulate [shape a ! 0, same_out R ps, same_out C ps, ps * ps * D]
             (\<lambda>idx.
                let q = idx ! 3; i = q div D div ps; j = q div D mod ps; d = q mod D
                in padded_read a (idx ! 0)
                     (int (idx ! 1 * ps + i) - same_pad R ps)
                     (int (idx ! 2 * ps + j) - same_pad C ps) d)))"

text \<open>
  Indexing with integer lists, one list per axis (numpy's and xarray's orthogonal
  indexing): the result has one position per combination of the listed indices.
\<close>

definition gather :: "'a tensor \<Rightarrow> nat list list \<Rightarrow> 'a tensor" where
  "gather a iss = tabulate (map length iss) (\<lambda>idx. elem a (map2 (!) iss idx))"

text \<open>\<open>a[..., i]\<close>: one index of the last axis, which disappears.\<close>

definition select_last :: "'a tensor \<Rightarrow> nat \<Rightarrow> exn + 'a tensor" where
  "select_last a i =
     (if shape a = [] \<or> last (shape a) \<le> i then Inl InvalidArgumentError
      else Inr (tabulate (butlast (shape a)) (\<lambda>idx. elem a (idx @ [i]))))"

text \<open>\<open>tf.range(n, dtype=tf.float32)\<close>.\<close>

definition tf_range :: "nat \<Rightarrow> real tensor" where
  "tf_range n = \<lparr>shape = [n], data = map real [0..<n]\<rparr>"

text \<open>\<open>tf.tile(a, multiples)\<close>: axis \<open>k\<close> is repeated \<open>multiples[k]\<close> times.\<close>

definition tile :: "'a tensor \<Rightarrow> nat list \<Rightarrow> exn + 'a tensor" where
  "tile a ms =
     (if length ms \<noteq> length (shape a) then Inl InvalidArgumentError
      else Inr (tabulate (map2 (*) (shape a) ms) (\<lambda>idx. elem a (map2 (mod) idx (shape a)))))"

text \<open>
  \<open>tf.concat(ts, axis=3)\<close> and \<open>np.concatenate(ts, axis=3)\<close>: every array has
  rank 4 and the same first three axis lengths; position \<open>c\<close> of the last axis is taken
  from the first array whose channels are not used up.
\<close>

fun pick_channel :: "'a::zero tensor list \<Rightarrow> nat list \<Rightarrow> nat \<Rightarrow> 'a" where
  "pick_channel [] pre c = 0"
| "pick_channel (t # ts) pre c =
     (if c < shape t ! 3 then elem t (pre @ [c]) else pick_channel ts pre (c - shape t ! 3))"

definition concat3 :: "'a::zero tensor list \<Rightarrow> exn + 'a tensor" where
  "concat3 ts =
     (case ts of
        [] \<Rightarrow> Inl InvalidArgumentError
      | t0 # _ \<Rightarrow>
          if list_all (\<lambda>t. length (shape t) = 4 \<and> take 3 (shape t) = take 3 (shape t0)) ts
          then Inr (tabulate (take 3 (shape t0) @ [sum_list (map (\<lambda>t. shape t ! 3) ts)])
                 (\<lambda>idx. pick_channel ts (take 3 idx) (idx ! 3)))
          else Inl InvalidArgumentError)"

text \<open>
  Elementwise binary operations with broadcasting: shapes are aligned at their last axis;
  two axis lengths are compatible when they are equal or one of them is 1.
\<close>

fun broadcast_rev :: "nat list \<Rightarrow> nat list \<Rightarrow> nat list option" where
  "broadcast_rev [] ys = Some ys"
| "broadcast_rev xs [] = Some xs"
| "broadcast_rev (x # xs) (y # ys) =
     (if x = y \<or> y = 1 then map_option ((#) x) (broadcast_rev xs ys)
      else if x = 1 then map_option ((#) y) (broadcast_rev xs ys)
      else None)"

definition broadcast_shape :: "nat list \<Rightarrow> nat list \<Rightarrow> nat list option" where
  "broadcast_shape s1 s2 = map_option rev (broadcast_rev (rev s1) (rev s2))"

definition broadcast_index :: "nat list \<Rightarrow> nat list \<Rightarrow> nat list" where
  "broadcast_index s idx =
     map2 (\<lambda>n i. if n = 1 then 0 else i) s (drop (length idx - length s) idx)"

definition binop :: "('a \<Rightarrow> 'a \<Rightarrow> 'a) \<Rightarrow> 'a tensor \<Rightarrow> 'a tensor \<Rightarrow> exn + 'a tensor" where
  "binop f a b =
     (case broadcast_shape (shape a) (shape b) of
        None \<Rightarrow> Inl InvalidArgumentError
      | Some s \<Rightarrow>
          Inr (tabulate s (\<lambda>idx. f (elem a (broadcast_index (shape a) idx))
                                   (elem b (broadcast_index (shape b) idx)))))"

text \<open>
  Array elements are \<open>float32\<close> in the source and real numbers here: rounding is not
  modelled, and neither are the infinities and NaN that a division by zero produces.
\<close>

definition tf_subtract :: "real tensor \<Rightarrow> real tensor \<Rightarrow> exn + real tensor" where
  "tf_subtract = binop (-)"

definition tf_divide :: "real tensor \<Rightarrow> real tensor \<Rightarrow> exn + real tensor" where
  "tf_divide = binop (/)"

text \<open>\<open>tf.transpose(a, [1, 0, 2, 3, 4])\<close>.\<close>

definition transpose_10234 :: "'a tensor \<Rightarrow> exn + 'a tensor" where
  "transpose_10234 a =
     (if length (shape a) \<noteq> 5 then Inl InvalidArgumentError
      else Inr (tabulate (shape a ! 1 # shape a ! 0 # drop 2 (shape a))
             (\<lambda>idx. elem a (idx ! 1 # idx ! 0 # drop 2 idx))))"

text \<open>
  \<open>np.mean\<close> and \<open>np.std\<close> (population standard deviation) of a 1D array, and
  \<open>np.arange(n)\<close>. For the empty array numpy gives NaN; the quotient by zero is 0
  here.
\<close>

definition np_mean :: "real list \<Rightarrow> real" where
  "np_mean vs = sum_list vs / real (length vs)"

text \<open>
  The square root of a real number cannot be computed; evaluation leaves \<open>np_sqrt\<close>
  standing.
\<close>

definition np_sqrt :: "real \<Rightarrow> real" where
  "np_sqrt v = sqrt v"

declare np_sqrt_def [code del]

definition np_std :: "real list \<Rightarrow> real" where
  "np_std vs = np_sqrt (np_mean (map (\<lambda>v. (v - np_mean vs)\<^sup>2) vs))"

definition np_arange :: "nat \<Rightarrow> real list" where
  "np_arange n = map real [0..<n]"

section \<open>Python built-ins\<close>

text \<open>Indexing a sequence of length \<open>n\<close>: a negative index counts from the end.\<close>

definition py_index :: "nat \<Rightarrow> int \<Rightarrow> exn + nat" where
  "py_index n i =
     (if 0 \<le> i \<and> i < int n then Inr (nat i)
      else if - int n \<le> i \<and> i < 0 then Inr (nat (i + int n))
      else Inl IndexError)"

fun py_indices :: "nat \<Rightarrow> int list \<Rightarrow> exn + nat list" where
  "py_indices n [] = Inr []"
| "py_indices n (i # is) =
     bind_r (py_index n i) (\<lambda>j. bind_r (py_indices n is) (\<lambda>js. Inr (j # js)))"

text \<open>\<open>s.split(c)\<close> for a one-character separator.\<close>

fun split_on :: "char \<Rightarrow> string \<Rightarrow> string list" where
  "split_on c [] = [[]]"
| "split_on c (x # xs) =
     (if x = c then [] # split_on c xs
      else (x # hd (split_on c xs)) # tl (split_on c xs))"

text \<open>
  \<open>int(s)\<close> for a string: surrounding whitespace is dropped, a sign may come first, and a
  single underscore may stand between two decimal digits. Digits and whitespace outside
  ASCII are not modelled.
\<close>

definition is_space :: "char \<Rightarrow> bool" where
  "is_space c \<longleftrightarrow> of_char c \<in> set [9, 10, 11, 12, 13, 28, 29, 30, 31, 32 :: nat]"

definition is_digit :: "char \<Rightarrow> bool" where
  "is_digit c \<longleftrightarrow> 48 \<le> (of_char c :: nat) \<and> (of_char c :: nat) \<le> 57"

definition strip :: "string \<Rightarrow> string" where
  "strip s = rev (dropWhile is_space (rev (dropWhile is_space s)))"

fun digits_acc :: "nat \<Rightarrow> string \<Rightarrow> nat option" where
  "digits_acc acc [] = Some acc"
| "digits_acc acc (c # cs) =
     (if is_digit c then digits_acc (acc * 10 + (of_char c - 48)) cs
      else if c = CHR ''_'' \<and> cs \<noteq> [] \<and> is_digit (hd cs) then digits_acc acc cs
      else None)"

definition digits :: "string \<Rightarrow> nat option" where
  "digits s = (if s \<noteq> [] \<and> is_digit (hd s) then digits_acc 0 s else None)"

definition py_int :: "string \<Rightarrow> exn + int" where
  "py_int s =
     (let t = strip s;
          r = (case t of
                 [] \<Rightarrow> None
               | c # cs \<Rightarrow>
                   if c = CHR ''-'' then map_option (\<lambda>n. - int n) (digits cs)
                   else if c = CHR ''+'' then map_option int (digits cs)
                   else map_option int (digits t))
      in case r of None \<Rightarrow> Inl (ValueError ''invalid literal for int()'') | Some v \<Rightarrow> Inr v)"

text \<open>\<open>range(start, end)\<close> as the list of its elements.\<close>

definition py_range :: "int \<Rightarrow> int \<Rightarrow> int list" where
  "py_range start stop = [start..stop - 1]"

section \<open>Archives\<close>

text \<open>
  What the loader uses of an archive opened with \<open>xr.open_dataset\<close>: the lead-time
  coordinate, the names along the two predictor axes, the lengths of the spatial axes and
  the three variables \<open>predictors\<close> (leadtime, y, x, predictor),
  \<open>static_predictors\<close> (y, x, static_predictor) and \<open>target_mean\<close> (leadtime, y, x).
  The type \<open>'v\<close> is what a variable holds: its array in an archive, and after
  \<open>isel\<close> the outcome of reading its values, an array or the exception that the read
  raises.
\<close>

record 'v dataset =
  ds_leadtime :: "int list"
  ds_predictor :: "string list"
  ds_static_predictor :: "string list"
  ds_x :: nat
  ds_y :: nat
  ds_predictors :: 'v
  ds_static_predictors :: 'v
  ds_target_mean :: 'v

text \<open>The variables of an archive share its dimensions.\<close>

definition wf_dataset :: "real tensor dataset \<Rightarrow> bool" where
  "wf_dataset ds \<longleftrightarrow>
     shape (ds_predictors ds) =
       [length (ds_leadtime ds), ds_y ds, ds_x ds, length (ds_predictor ds)] \<and>
     shape (ds_static_predictors ds) = [ds_y ds, ds_x ds, length (ds_static_predictor ds)] \<and>
     shape (ds_target_mean ds) = [length (ds_leadtime ds), ds_y ds, ds_x ds] \<and>
     wf_tensor (ds_predictors ds) \<and> wf_tensor (ds_static_predictors ds) \<and>
     wf_tensor (ds_target_mean ds)"

text \<open>The argument of \<open>dataset.isel\<close>: for each dimension, the indices to keep or nothing.\<close>

record limits =
  lim_predictor :: "int list option"
  lim_static_predictor :: "int list option"
  lim_leadtime :: "int list option"
  lim_x :: "int list option"
  lim_y :: "int list option"

definition resolve_limit :: "nat \<Rightarrow> int list option \<Rightarrow> exn + nat list" where
  "resolve_limit n limit = (case limit of None \<Rightarrow> Inr [0..<n] | Some js \<Rightarrow> py_indices n js)"

definition requested_length :: "nat \<Rightarrow> int list option \<Rightarrow> nat" where
  "requested_length n limit = (case limit of None \<Rightarrow> n | Some js \<Rightarrow> length js)"

text \<open>
  \<open>dataset.isel(**limit)\<close>. The lead times and the two name axes are coordinates held
  in memory: an index list for them is applied, and checked, at once. The x and y axes
  are dimensions without a coordinate, and the values of the variables stay in the file:
  \<open>isel\<close> returns a dataset whose x and y lengths are the lengths of the index lists
  asked for, and an index outside the axis raises only when the values of a variable are
  read.
\<close>

definition isel :: "real tensor dataset \<Rightarrow> limits \<Rightarrow> exn + (exn + real tensor) dataset" where
  "isel ds limit =
     bind_r (resolve_limit (length (ds_predictor ds)) (lim_predictor limit)) (\<lambda>Ip.
     bind_r (resolve_limit (length (ds_static_predictor ds)) (lim_static_predictor limit)) (\<lambda>Is.
     bind_r (resolve_limit (length (ds_leadtime ds)) (lim_leadtime limit)) (\<lambda>Il.
       Inr \<lparr>ds_leadtime = map ((!) (ds_leadtime ds)) Il,
            ds_predictor = map ((!) (ds_predictor ds)) Ip,
            ds_static_predictor = map ((!) (ds_static_predictor ds)) Is,
            ds_x = requested_length (ds_x ds) (lim_x limit),
            ds_y = requested_length (ds_y ds) (lim_y limit),
            ds_predictors =
              bind_r (resolve_limit (ds_x ds) (lim_x limit)) (\<lambda>Ix.
              bind_r (resolve_limit (ds_y ds) (lim_y limit)) (\<lambda>Iy.
                Inr (gather (ds_predictors ds) [Il, Iy, Ix, Ip]))),
            ds_static_predictors =
              bind_r (resolve_limit (ds_x ds) (lim_x limit)) (\<lambda>Ix.
              bind_r (resolve_limit (ds_y ds) (lim_y limit)) (\<lambda>Iy.
                Inr (gather (ds_static_predictors ds) [Iy, Ix, Is]))),
            ds_target_mean =
              bind_r (resolve_limit (ds_x ds) (lim_x limit)) (\<lambda>Ix.
              bind_r (resolve_limit (ds_y ds) (lim_y limit)) (\<lambda>Iy.
                Inr (gather (ds_target_mean ds) [Il, Iy, Ix])))\<rparr>)))"

text \<open>
  The outside world of the loader: file name patterns resolved by \<open>glob.glob\<close>, archives
  by name (absent when the file cannot be opened) and normalization files by name, each
  a YAML mapping from a predictor name to its (mean, scale) pair.
\<close>

record world =
  glob :: "string \<Rightarrow> string list"
  open_dataset :: "string \<Rightarrow> real tensor dataset option"
  yaml_load :: "string \<Rightarrow> (string \<times> real \<times> real) list option"

section \<open>The loader\<close>

text \<open>
  An extra feature is a dictionary with the key \<open>type\<close> and, optionally, \<open>name\<close>.
  The type is a string: any string is accepted at construction.
\<close>

record feature =
  feature_type :: string
  feature_name :: "string option"

text \<open>
  The keyword arguments of \<open>Loader.__init__\<close>. The range arguments have type \<open>'r\<close>:
  lists of indices for the constructor, and lists or \<open>start:end\<close> strings for
  \<open>from_config\<close>. The arguments \<open>probabilistic_target\<close>, \<open>quick_metadata\<close> and
  \<open>to_gpu\<close> are accepted and never stored.
\<close>

record 'r loader_args =
  arg_filenames :: "string list"
  arg_limit_leadtimes :: "'r option"
  arg_limit_predictors :: "string list option"
  arg_x_range :: "'r option"
  arg_y_range :: "'r option"
  arg_normalization :: "string option"
  arg_patch_size :: "nat option"
  arg_predict_diff :: bool
  arg_batch_size :: nat
  arg_prefetch :: "nat option"
  arg_cache :: bool
  arg_num_parallel_calls :: "nat option"
  arg_extra_features :: "feature list"
  arg_debug :: bool
  arg_fake :: bool

datatype range_arg = RangeStr string | RangeList "int list"

text \<open>
  Modelled from the spec: the timer (\<open>maelstrom.timer.Timer\<close>) is not among the
  sources. The specification describes it as an accumulator of durations with addition
  per named stage, used for diagnostics only; creating it and adding to it return.
\<close>

type_synonym timer = "(string \<times> real) list"

definition Timer :: "string \<Rightarrow> timer" where
  "Timer filename = []"

definition timer_add :: "timer \<Rightarrow> string \<Rightarrow> real \<Rightarrow> timer" where
  "timer_add t name seconds =
     AList.update name (seconds + (case map_of t name of Some v \<Rightarrow> v | None \<Rightarrow> 0)) t"

text \<open>
  The attributes of a \<open>Loader\<close> object. The durations that the stages add to the
  timer are clock readings, which the program does not determine: the stage functions
  below return the arrays and leave the timer as it is. For the same reason the
  attributes \<open>timing\<close> and \<open>s_time\<close>, the counters of the two printing stages and
  the output of \<open>debug\<close> and \<open>print\<close> are left out; none of them changes an array
  or another attribute.
\<close>

record loader =
  show_debug :: bool
  filenames :: "string list"
  extra_features :: "feature list"
  limit_predictors :: "string list option"
  limit_leadtimes :: "int list option"
  x_range :: "int list option"
  y_range :: "int list option"
  patch_size :: "nat option"
  predict_diff :: bool
  batch_size :: nat
  prefetch :: "nat option"
  cache :: bool
  leadtimes :: "int list"
  num_x_input :: nat
  num_y_input :: nat
  num_input_predictors :: nat
  num_predictors :: nat
  predictor_names_input :: "string list"
  predictor_names :: "string list"
  num_targets :: nat
  normalization :: "string option"
  fake :: bool
  num_parallel_calls :: "nat option"
  coefficients :: "(real \<times> real) list option"
  logger :: timer
  count_reads :: nat

definition num_files :: "loader \<Rightarrow> nat" where
  "num_files L = length (filenames L)"

definition num_leadtimes :: "loader \<Rightarrow> nat" where
  "num_leadtimes L = length (leadtimes L)"

definition num_y_patches :: "loader \<Rightarrow> nat" where
  "num_y_patches L = (case patch_size L of Some ps \<Rightarrow> num_y_input L div ps | None \<Rightarrow> 1)"

definition num_x_patches :: "loader \<Rightarrow> nat" where
  "num_x_patches L = (case patch_size L of Some ps \<Rightarrow> num_x_input L div ps | None \<Rightarrow> 1)"

definition get_feature_name :: "feature \<Rightarrow> string" where
  "get_feature_name f = (case feature_name f of Some n \<Rightarrow> n | None \<Rightarrow> feature_type f)"

subsection \<open>Metadata\<close>

definition get_dimension_limits ::
  "loader \<Rightarrow> 'v dataset \<Rightarrow> int list option \<Rightarrow> exn + limits" where
  "get_dimension_limits L ds leadtime_indices =
     bind_r
       (case leadtime_indices of
          None \<Rightarrow> Inr (limit_leadtimes L)
        | Some idxs \<Rightarrow>
            if limit_leadtimes L \<noteq> None
            then bind_r (py_indices (length (ds_leadtime ds)) idxs)
                   (\<lambda>js. Inr (Some (map ((!) (ds_leadtime ds)) js)))
            else Inr (Some idxs))
       (\<lambda>lt. Inr
          \<lparr>lim_predictor =
             map_option
               (\<lambda>names. map int (filter (\<lambda>i. ds_predictor ds ! i \<in> set names)
                                    [0..<length (ds_predictor ds)]))
               (limit_predictors L),
           lim_static_predictor =
             map_option
               (\<lambda>names. map int (filter (\<lambda>i. ds_static_predictor ds ! i \<in> set names)
                                    [0..<length (ds_static_predictor ds)]))
               (limit_predictors L),
           lim_leadtime = lt,
           lim_x = x_range L,
           lim_y = y_range L\<rparr>)"

definition patch_too_large :: "nat option \<Rightarrow> nat \<Rightarrow> bool" where
  "patch_too_large ps n = (case ps of None \<Rightarrow> False | Some k \<Rightarrow> k > n)"

definition load_metadata :: "loader \<Rightarrow> world \<Rightarrow> string \<Rightarrow> exn + loader" where
  "load_metadata L w filename =
     (case open_dataset w filename of
        None \<Rightarrow> Inl FileNotFoundError
      | Some ds0 \<Rightarrow>
          bind_r (get_dimension_limits L ds0 None) (\<lambda>limit.
          bind_r (isel ds0 limit) (\<lambda>ds.
            if patch_too_large (patch_size L) (ds_x ds) then Inl (ValueError ''Patch size too small'')
            else if patch_too_large (patch_size L) (ds_y ds) then Inl (ValueError ''Patch size too small'')
            else
              let n_in = length (ds_predictor ds) + length (ds_static_predictor ds);
                  names_in = ds_predictor ds @ ds_static_predictor ds
              in Inr (L\<lparr>leadtimes := ds_leadtime ds,
                        num_x_input := ds_x ds,
                        num_y_input := ds_y ds,
                        num_input_predictors := n_in,
                        num_predictors :=
                          (case limit_predictors L of
                             None \<Rightarrow> n_in + length (extra_features L)
                           | Some allowed \<Rightarrow> length allowed),
                        predictor_names_input := names_in,
                        predictor_names := names_in @ map get_feature_name (extra_features L),
                        num_targets := 1\<rparr>))))"

subsection \<open>Normalization coefficients\<close>

definition feature_coefficients :: "loader \<Rightarrow> feature \<Rightarrow> real \<times> real" where
  "feature_coefficients L f =
     (if feature_type f = ''x''
      then (np_mean (np_arange (num_x_input L)), np_std (np_arange (num_x_input L)))
      else if feature_type f = ''y''
      then (np_mean (np_arange (num_y_input L)), np_std (np_arange (num_y_input L)))
      else if feature_type f = ''leadtime''
      then (np_mean (np_arange (num_leadtimes L)), np_std (np_arange (num_leadtimes L)))
      else (0, 1))"

definition get_extra_features_normalization ::
  "loader \<Rightarrow> feature list \<Rightarrow> (string \<times> real \<times> real) list" where
  "get_extra_features_normalization L fs =
     foldl (\<lambda>d f. AList.update (get_feature_name f) (feature_coefficients L f) d) [] fs"

text \<open>
  The loop over \<open>enumerate(self.predictor_names)\<close>. Its middle branch, \<open>name in
  self.extra_features\<close>, compares a name with the feature dictionaries and is never
  taken; the two other branches both assign row \<open>i\<close>, which raises when the table has
  no such row.
\<close>

fun fill_rows ::
  "(string \<times> real \<times> real) list \<Rightarrow> string list \<Rightarrow> nat \<Rightarrow> (real \<times> real) list \<Rightarrow>
   exn + (real \<times> real) list" where
  "fill_rows c [] i tab = Inr tab"
| "fill_rows c (name # names) i tab =
     (case map_of c name of
        Some v \<Rightarrow>
          if i < length tab then fill_rows c names (Suc i) (tab[i := v]) else Inl IndexError
      | None \<Rightarrow>
          if i < length tab then fill_rows c names (Suc i) (tab[i := (0, 1)])
          else Inl IndexError)"

text \<open>The row the loop assigns for a name: its entry in the mapping, or the default.\<close>

definition row_of :: "(string \<times> real \<times> real) list \<Rightarrow> string \<Rightarrow> real \<times> real" where
  "row_of c name = (case map_of c name of Some v \<Rightarrow> v | None \<Rightarrow> (0, 1))"

definition merge_coefficients ::
  "(string \<times> real \<times> real) list \<Rightarrow> (string \<times> real \<times> real) list \<Rightarrow>
   (string \<times> real \<times> real) list" where
  "merge_coefficients src extra = foldl (\<lambda>c (k, v). AList.update k v c) src extra"

definition load_coefficients :: "loader \<Rightarrow> world \<Rightarrow> exn + loader" where
  "load_coefficients L w =
     (case normalization L of
        None \<Rightarrow> Inr (L\<lparr>coefficients := None\<rparr>)
      | Some fname \<Rightarrow>
          (case yaml_load w fname of
             None \<Rightarrow> Inl FileNotFoundError
           | Some src \<Rightarrow>
               bind_r
                 (fill_rows
                    (merge_coefficients src
                       (get_extra_features_normalization L (extra_features L)))
                    (predictor_names L) 0 (replicate (num_predictors L) (0, 1)))
                 (\<lambda>tab. Inr (L\<lparr>coefficients := Some tab\<rparr>))))"

subsection \<open>Construction\<close>

definition Loader_init :: "int list loader_args \<Rightarrow> world \<Rightarrow> exn + loader" where
  "Loader_init args w =
     (let fs = concat (map (glob w) (arg_filenames args));
          L0 = \<lparr>show_debug = arg_debug args, filenames = fs,
                extra_features = arg_extra_features args,
                limit_predictors = arg_limit_predictors args,
                limit_leadtimes = arg_limit_leadtimes args,
                x_range = arg_x_range args, y_range = arg_y_range args,
                patch_size = arg_patch_size args, predict_diff = arg_predict_diff args,
                batch_size = arg_batch_size args, prefetch = arg_prefetch args,
                cache = arg_cache args,
                leadtimes = [], num_x_input = 0, num_y_input = 0, num_input_predictors = 0,
                num_predictors = 0, predictor_names_input = [], predictor_names = [],
                num_targets = 0, normalization = None, fake = False,
                num_parallel_calls = None, coefficients = None, logger = [],
                count_reads = 0\<rparr>
      in case fs of
           [] \<Rightarrow> Inl IndexError
         | f0 # _ \<Rightarrow>
             bind_r (load_metadata L0 w f0) (\<lambda>L1.
               load_coefficients
                 (L1\<lparr>logger := Timer ''test.txt'', normalization := arg_normalization args,
                     fake := arg_fake args,
                     num_parallel_calls := arg_num_parallel_calls args\<rparr>) w))"

definition parse_range :: "range_arg \<Rightarrow> exn + int list" where
  "parse_range cur =
     (case cur of
        RangeList js \<Rightarrow> Inr js
      | RangeStr s \<Rightarrow>
          if CHR '':'' \<notin> set s then Inl (ValueError ''Cannot interpret range string'')
          else
            (case split_on CHR '':'' s of
               [start, stop] \<Rightarrow>
                 bind_r (py_int start) (\<lambda>a. bind_r (py_int stop) (\<lambda>b. Inr (py_range a b)))
             | _ \<Rightarrow> Inl (ValueError ''too many values to unpack'')))"

definition parse_range_opt :: "range_arg option \<Rightarrow> exn + int list option" where
  "parse_range_opt r =
     (case r of None \<Rightarrow> Inr None | Some cur \<Rightarrow> bind_r (parse_range cur) (\<lambda>js. Inr (Some js)))"

definition from_config :: "range_arg loader_args \<Rightarrow> world \<Rightarrow> exn + loader" where
  "from_config config w =
     bind_r (parse_range_opt (arg_x_range config)) (\<lambda>xr.
     bind_r (parse_range_opt (arg_y_range config)) (\<lambda>yr.
     bind_r (parse_range_opt (arg_limit_leadtimes config)) (\<lambda>lt.
       Loader_init
         \<lparr>arg_filenames = arg_filenames config, arg_limit_leadtimes = lt,
          arg_limit_predictors = arg_limit_predictors config,
          arg_x_range = xr, arg_y_range = yr,
          arg_normalization = arg_normalization config,
          arg_patch_size = arg_patch_size config,
          arg_predict_diff = arg_predict_diff config,
          arg_batch_size = arg_batch_size config, arg_prefetch = arg_prefetch config,
          arg_cache = arg_cache config,
          arg_num_parallel_calls = arg_num_parallel_calls config,
          arg_extra_features = arg_extra_features config,
          arg_debug = arg_debug config, arg_fake = arg_fake config\<rparr> w)))"

subsection \<open>Reading a file\<close>

text \<open>
  The static predictors are copied to every lead time and appended to the dynamic
  predictors. The copy raises when the arrays do not agree on the spatial axes; the
  variables of one dataset always agree.
\<close>

definition merge_static :: "real tensor \<Rightarrow> real tensor \<Rightarrow> exn + real tensor" where
  "merge_static predictors static_predictors0 =
     (if tl (butlast (shape predictors)) \<noteq> butlast (shape static_predictors0)
      then Inl (ValueError ''could not broadcast input array'')
      else concat3
             [predictors,
              tabulate (butlast (shape predictors) @ [last (shape static_predictors0)])
                (\<lambda>idx. elem static_predictors0 (tl idx))])"

text \<open>
  \<open>parse_file\<close> reads the values of the variables where numpy or TensorFlow needs them:
  with static predictors, in the copy and in \<open>np.concatenate\<close>; without, the targets in
  \<open>np.expand_dims\<close> and the predictors in \<open>tf.convert_to_tensor\<close>.
\<close>

definition parse_file :: "loader \<Rightarrow> world \<Rightarrow> string \<Rightarrow> exn + real tensor \<times> real tensor" where
  "parse_file L w filename =
     (case open_dataset w filename of
        None \<Rightarrow> Inl FileNotFoundError
      | Some ds0 \<Rightarrow>
          bind_r (get_dimension_limits L ds0 None) (\<lambda>limit.
          bind_r (isel ds0 limit) (\<lambda>ds.
            if length (ds_static_predictor ds) > 0 then
              bind_r (ds_static_predictors ds) (\<lambda>static_predictors0.
              bind_r (ds_predictors ds) (\<lambda>predictors0.
              bind_r (merge_static predictors0 static_predictors0) (\<lambda>p.
              bind_r (ds_target_mean ds) (\<lambda>targets0.
              bind_r (expand_dims targets0 3) (\<lambda>t. Inr (p, t))))))
            else
              bind_r (ds_target_mean ds) (\<lambda>targets0.
              bind_r (expand_dims targets0 3) (\<lambda>t.
              bind_r (ds_predictors ds) (\<lambda>p. Inr (p, t)))))))"

definition zeros :: "nat list \<Rightarrow> real tensor" where
  "zeros s = tabulate s (\<lambda>idx. 0)"

definition generate_fake_data :: "loader \<Rightarrow> real tensor \<times> real tensor" where
  "generate_fake_data L =
     (zeros [num_leadtimes L, num_y_input L, num_x_input L, num_input_predictors L],
      zeros [num_leadtimes L, num_y_input L, num_x_input L, 1])"

text \<open>\<open>load_file\<close> prints \<open>self.filenames[index]\<close> before it looks at \<open>self.fake\<close>.\<close>

definition load_file ::
  "loader \<Rightarrow> world \<Rightarrow> nat \<Rightarrow> exn + (real tensor \<times> real tensor) \<times> loader" where
  "load_file L w index =
     (if length (filenames L) \<le> index then Inl IndexError
      else bind_r (if fake L then Inr (generate_fake_data L)
                   else parse_file L w (filenames L ! index))
             (\<lambda>pt. Inr (pt, L\<lparr>count_reads := count_reads L + 1\<rparr>)))"

section \<open>The patch stage\<close>

text \<open>
  \<open>patch_tensor\<close> is the local function of \<open>Loader.patch\<close>. Reading \<open>a.shape[2]\<close>
  of an array of rank below 3 raises; \<open>Y // ps\<close> raises for \<open>ps = 0\<close>; an array of rank
  above 4 reaches \<open>extract_patches\<close> with rank 6, which it rejects.
\<close>

definition patch_tensor :: "'a::zero tensor \<Rightarrow> nat \<Rightarrow> exn + 'a tensor" where
  "patch_tensor a ps =
     (if length (shape a) = 4 then
        let LT = shape a ! 0; Y = shape a ! 1; X = shape a ! 2; P = shape a ! 3
        in if ps = 0 then Inl ZeroDivisionError
           else
             let num_patches_y = Y div ps; num_patches_x = X div ps;
                 a1 = take_axes [LT, Y div ps * ps, X div ps * ps, P] a
             in bind_r (extract_patches a1 ps) (\<lambda>a2.
                bind_r (expand_dims a2 0) (\<lambda>a3.
                reshape a3 [LT, num_patches_y * num_patches_x, ps, ps, P]))
      else if length (shape a) < 3 then Inl IndexError
      else
        let Y = shape a ! 0; X = shape a ! 1; P = shape a ! 2
        in if ps = 0 then Inl ZeroDivisionError
           else
             let num_patches_y = Y div ps; num_patches_x = X div ps;
                 a1 = take_axes ([Y div ps * ps, X div ps * ps, P] @ drop 3 (shape a)) a
             in bind_r (expand_dims a1 0) (\<lambda>a2.
                bind_r (extract_patches a2 ps) (\<lambda>a3.
                reshape a3 [num_patches_y * num_patches_x, ps, ps, P])))"

definition patch ::
  "loader \<Rightarrow> 'a::zero tensor \<Rightarrow> 'a tensor \<Rightarrow> exn + 'a tensor \<times> 'a tensor" where
  "patch L predictors targets =
     (case patch_size L of
        None \<Rightarrow>
          bind_r (expand_dims predictors 1) (\<lambda>p.
          bind_r (expand_dims targets 1) (\<lambda>t. Inr (p, t)))
      | Some ps \<Rightarrow>
          bind_r (patch_tensor predictors ps) (\<lambda>p.
          bind_r (patch_tensor targets ps) (\<lambda>t. Inr (p, t))))"

section \<open>The feature stage\<close>

definition broadcast :: "real tensor \<Rightarrow> nat list \<Rightarrow> nat \<Rightarrow> exn + real tensor" where
  "broadcast tensor final_shape axis =
     (if axis = 2 then
        bind_r (expand_dims tensor 0) (\<lambda>t1.
        bind_r (expand_dims t1 1) (\<lambda>t2.
          if length final_shape < 2 then Inl IndexError
          else tile t2 [final_shape ! 0, final_shape ! 1, 1]))
      else if axis = 1 then
        bind_r (expand_dims tensor 0) (\<lambda>t1.
        bind_r (expand_dims t1 2) (\<lambda>t2.
          if length final_shape < 3 then Inl IndexError
          else tile t2 [final_shape ! 0, 1, final_shape ! 2]))
      else
        bind_r (expand_dims tensor 1) (\<lambda>t1.
        bind_r (expand_dims t1 2) (\<lambda>t2.
          if length final_shape < 3 then Inl IndexError
          else tile t2 [1, final_shape ! 1, final_shape ! 2])))"

text \<open>
  One feature of the loop in \<open>extract_features\<close>. The variable \<open>curr\<close> is assigned
  only for the three known types: for any other type it is unbound in the first
  iteration and still holds the previous feature's channel in a later one.
\<close>

definition feature_array ::
  "nat list \<Rightarrow> feature \<Rightarrow> real tensor option \<Rightarrow> exn + real tensor" where
  "feature_array shp f previous =
     (if feature_type f = ''x'' then
        (if length shp < 3 then Inl IndexError else broadcast (tf_range (shp ! 2)) shp 2)
      else if feature_type f = ''y'' then
        (if length shp < 2 then Inl IndexError else broadcast (tf_range (shp ! 1)) shp 1)
      else if feature_type f = ''leadtime'' then
        (if length shp < 1 then Inl IndexError else broadcast (tf_range (shp ! 0)) shp 0)
      else (case previous of None \<Rightarrow> Inl UnboundLocalError | Some c \<Rightarrow> Inr c))"

fun extract_loop ::
  "nat list \<Rightarrow> feature list \<Rightarrow> real tensor option \<Rightarrow> real tensor list \<Rightarrow>
   exn + real tensor list" where
  "extract_loop shp [] previous p = Inr p"
| "extract_loop shp (f # fs) previous p =
     bind_r (feature_array shp f previous) (\<lambda>c1.
     bind_r (expand_dims c1 (length (shape c1))) (\<lambda>c2.
       extract_loop shp fs (Some c2) (p @ [c2])))"

definition extract_features ::
  "loader \<Rightarrow> real tensor \<Rightarrow> real tensor \<Rightarrow> exn + real tensor \<times> real tensor" where
  "extract_features L predictors targets =
     bind_r (extract_loop (shape predictors) (extra_features L) None [predictors]) (\<lambda>ps.
     bind_r (concat3 ps) (\<lambda>p. Inr (p, targets)))"

section \<open>The difference stage\<close>

text \<open>\<open>names.index(name)\<close>: the first position of the name, or a \<open>ValueError\<close>.\<close>

definition list_index :: "string list \<Rightarrow> string \<Rightarrow> exn + nat" where
  "list_index names name =
     (if name \<in> set names then Inr (length (takeWhile (\<lambda>n. n \<noteq> name) names))
      else Inl (ValueError ''is not in list''))"

definition raw_predictor_index :: "loader \<Rightarrow> exn + nat option" where
  "raw_predictor_index L =
     (if predict_diff L
      then bind_r (list_index (predictor_names L) ''air_temperature_2m'') (\<lambda>i. Inr (Some i))
      else Inr None)"

definition diff ::
  "loader \<Rightarrow> real tensor \<Rightarrow> real tensor \<Rightarrow> exn + real tensor \<times> real tensor" where
  "diff L predictors targets =
     bind_r (raw_predictor_index L) (\<lambda>r.
       case r of
         None \<Rightarrow> Inr (predictors, targets)
       | Some Ip \<Rightarrow>
           bind_r (select_last predictors Ip) (\<lambda>v0.
           bind_r (expand_dims v0 (length (shape v0))) (\<lambda>v.
           bind_r (tf_subtract targets v) (\<lambda>t. Inr (predictors, t)))))"

section \<open>The normalization stage\<close>

definition expand_array :: "real tensor \<Rightarrow> nat list \<Rightarrow> exn + real tensor" where
  "expand_array a shp =
     bind_r (expand_dims a 0) (\<lambda>a1.
     bind_r (expand_dims a1 0) (\<lambda>a2.
     bind_r (expand_dims a2 0) (\<lambda>a3.
     bind_r (expand_dims a3 0) (\<lambda>a4. tile a4 shp))))"

definition normalize ::
  "loader \<Rightarrow> real tensor \<Rightarrow> real tensor \<Rightarrow> exn + real tensor \<times> real tensor" where
  "normalize L predictors targets =
     (case coefficients L of
        None \<Rightarrow> Inr (predictors, targets)
      | Some tab \<Rightarrow>
          let a = \<lparr>shape = [length tab], data = map fst tab\<rparr>;
              s = \<lparr>shape = [length tab], data = map snd tab\<rparr>;
              shp = butlast (shape predictors) @ [1]
          in bind_r (expand_array a shp) (\<lambda>a'.
             bind_r (expand_array s shp) (\<lambda>s'.
             bind_r (tf_subtract predictors a') (\<lambda>p1.
             bind_r (tf_divide p1 s') (\<lambda>p. Inr (p, targets))))))"

section \<open>Reordering and the whole chain\<close>

definition reorder ::
  "loader \<Rightarrow> 'a tensor \<Rightarrow> 'a tensor \<Rightarrow> exn + 'a tensor \<times> 'a tensor" where
  "reorder L predictors targets =
     bind_r (transpose_10234 predictors) (\<lambda>p.
     bind_r (transpose_10234 targets) (\<lambda>t. Inr (p, t)))"

definition process ::
  "loader \<Rightarrow> real tensor \<Rightarrow> real tensor \<Rightarrow> exn + real tensor \<times> real tensor" where
  "process L predictors targets =
     bind_r (extract_features L predictors targets) (\<lambda>(p1, t1).
     bind_r (patch L p1 t1) (\<lambda>(p2, t2).
     bind_r (diff L p2 t2) (\<lambda>(p3, t3). normalize L p3 t3)))"

section \<open>Reassembling patches\<close>

text \<open>
  The inverse the patch stage is measured against: tile number \<open>py * nx + px\<close> of
  \<open>ny * nx\<close> tiles is put back at rows \<open>py * ps ..\<close> and columns \<open>px * ps ..\<close> of a
  grid of \<open>ny * ps\<close> by \<open>nx * ps\<close> points. It is not part of the loader.
\<close>

definition unpatch :: "nat \<Rightarrow> nat \<Rightarrow> 'a tensor \<Rightarrow> 'a tensor" where
  "unpatch ny nx b =
     (let ps = shape b ! 2
      in tabulate [shape b ! 0, ny * ps, nx * ps, shape b ! 4]
           (\<lambda>idx. elem b [idx ! 0, (idx ! 1 div ps) * nx + idx ! 2 div ps,
                                 idx ! 1 mod ps, idx ! 2 mod ps, idx ! 3]))"

text \<open>The value a feature of one of the three known types has at a grid position.\<close>

definition coordinate :: "feature \<Rightarrow> nat \<Rightarrow> nat \<Rightarrow> nat \<Rightarrow> real" where
  "coordinate f l y x =
     (if feature_type f = ''x'' then real x else if feature_type f = ''y'' then real y
      else real l)"

section \<open>Small concrete inputs\<close>

text \<open>
  A loader with the constructor's default arguments and no metadata, from which the
  concrete loaders below are obtained by setting fields.
\<close>

definition blank_loader :: loader where
  "blank_loader =
     \<lparr>show_debug = False, filenames = [], extra_features = [], limit_predictors = None,
      limit_leadtimes = None, x_range = None, y_range = None, patch_size = None,
      predict_diff = False, batch_size = 1, prefetch = None, cache = False, leadtimes = [],
      num_x_input = 0, num_y_input = 0, num_input_predictors = 0, num_predictors = 0,
      predictor_names_input = [], predictor_names = [], num_targets = 1,
      normalization = None, fake = False, num_parallel_calls = None, coefficients = None,
      logger = [], count_reads = 0\<rparr>"

text \<open>A grid of 2 by 4 points with one lead time and one channel, and its targets.\<close>

definition grid_2x4 :: "real tensor" where
  "grid_2x4 = \<lparr>shape = [1, 2, 4, 1], data = [1, 2, 3, 4, 5, 6, 7, 8]\<rparr>"

definition targets_2x4 :: "real tensor" where
  "targets_2x4 = \<lparr>shape = [1, 2, 4, 1], data = [10, 20, 30, 40, 50, 60, 70, 80]\<rparr>"

text \<open>One lead time, one row, two columns and two predictors; one extra feature of type x.\<close>

definition x_feature_loader :: loader where
  "x_feature_loader = blank_loader\<lparr>extra_features := [\<lparr>feature_type = ''x'', feature_name = None\<rparr>]\<rparr>"

definition grid_1x2x2 :: "real tensor" where
  "grid_1x2x2 = \<lparr>shape = [1, 1, 2, 2], data = [5, 6, 7, 8]\<rparr>"

definition targets_1x2 :: "real tensor" where
  "targets_1x2 = \<lparr>shape = [1, 1, 2, 1], data = [10, 20]\<rparr>"

text \<open>
  The constructor's default arguments, an archive with five lead times, two dynamic
  predictors and a grid of 1 by 2 points, and a world that holds this one archive and
  two normalization files.
\<close>

definition default_args :: "'r loader_args" where
  "default_args =
     \<lparr>arg_filenames = [], arg_limit_leadtimes = None, arg_limit_predictors = None,
      arg_x_range = None, arg_y_range = None, arg_normalization = None,
      arg_patch_size = None, arg_predict_diff = False, arg_batch_size = 1,
      arg_prefetch = None, arg_cache = False, arg_num_parallel_calls = None,
      arg_extra_features = [], arg_debug = False, arg_fake = False\<rparr>"

definition archive_5 :: "real tensor dataset" where
  "archive_5 =
     \<lparr>ds_leadtime = [0, 1, 2, 3, 4],
      ds_predictor = [''air_temperature_2m'', ''precipitation''],
      ds_static_predictor = [],
      ds_x = 2, ds_y = 1,
      ds_predictors = \<lparr>shape = [5, 1, 2, 2], data = map real [0..<20]\<rparr>,
      ds_static_predictors = \<lparr>shape = [1, 2, 0], data = []\<rparr>,
      ds_target_mean = \<lparr>shape = [5, 1, 2], data = map real [100..<110]\<rparr>\<rparr>"

definition example_world :: world where
  "example_world =
     \<lparr>glob = (\<lambda>pattern. if pattern = ''data/*.nc'' then [''data/a.nc''] else []),
      open_dataset = (\<lambda>name. if name = ''data/a.nc'' then Some archive_5 else None),
      yaml_load = (\<lambda>name. if name = ''norm.yml'' then Some [(''air_temperature_2m'', (280, 10))]
                          else if name = ''zero.yml'' then Some [(''precipitation'', (5, 0))]
                          else None)\<rparr>"

text \<open>
  The specification's \<open>ConfigError\<close>. The loader has no exception class of its own:
  it reports invalid options with \<open>ValueError\<close> (the patch size in \<open>load_metadata\<close>,
  a range string in \<open>from_config\<close>).
\<close>

definition is_ConfigError :: "exn \<Rightarrow> bool" where
  "is_ConfigError e = (case e of ValueError msg \<Rightarrow> True | _ \<Rightarrow> False)"

text \<open>
  Constructor arguments on the example world: a normalization file with a zero scale; an
  allow-list naming two predictors the archive does not have, with an extra feature; an
  allow-list of one predictor with an extra feature; and a lead-time range string.
\<close>

definition zero_scale_args :: "int list loader_args" where
  "zero_scale_args =
     default_args\<lparr>arg_filenames := [''data/*.nc''], arg_normalization := Some ''zero.yml''\<rparr>"

definition mismatch_args :: "int list loader_args" where
  "mismatch_args =
     default_args\<lparr>arg_filenames := [''data/*.nc''],
       arg_limit_predictors := Some [''air_temperature_2m'', ''altitude'', ''land_area_fraction''],
       arg_extra_features := [\<lparr>feature_type = ''x'', feature_name = None\<rparr>],
       arg_normalization := Some ''norm.yml''\<rparr>"

definition overflow_args :: "int list loader_args" where
  "overflow_args =
     default_args\<lparr>arg_filenames := [''data/*.nc''],
       arg_limit_predictors := Some [''air_temperature_2m''],
       arg_extra_features := [\<lparr>feature_type = ''x'', feature_name = None\<rparr>],
       arg_normalization := Some ''norm.yml''\<rparr>"

definition range_config :: "range_arg loader_args" where
  "range_config =
     default_args\<lparr>arg_filenames := [''data/*.nc''],
                   arg_limit_leadtimes := Some (RangeStr ''1:3'')\<rparr>"

definition range_loader :: loader where
  "range_loader =
     blank_loader\<lparr>filenames := [''data/a.nc''], limit_leadtimes := Some [1, 2],
       leadtimes := [1, 2], num_x_input := 2, num_y_input := 1, num_input_predictors := 2,
       num_predictors := 2,
       predictor_names_input := [''air_temperature_2m'', ''precipitation''],
       predictor_names := [''air_temperature_2m'', ''precipitation'']\<rparr>"

text \<open>
  The same configuration with an x range of three points, on the archive's x axis of two
  points, and the loader that \<open>from_config\<close> returns for it.
\<close>

definition wide_range_config :: "range_arg loader_args" where
  "wide_range_config = range_config\<lparr>arg_x_range := Some (RangeStr ''0:3'')\<rparr>"

definition wide_range_loader :: loader where
  "wide_range_loader = range_loader\<lparr>x_range := Some [0, 1, 2], num_x_input := 3\<rparr>"

text \<open>
  The loader that the constructor returns for an allow-list of one predictor and an extra
  feature, without a normalization file.
\<close>

definition allow_list_loader :: loader where
  "allow_list_loader =
     blank_loader\<lparr>filenames := [''data/a.nc''],
       extra_features := [\<lparr>feature_type = ''x'', feature_name = None\<rparr>],
       limit_predictors := Some [''air_temperature_2m''],
       leadtimes := [0, 1, 2, 3, 4],
       num_x_input := 2, num_y_input := 1, num_input_predictors := 1, num_predictors := 1,
       predictor_names_input := [''air_temperature_2m''],
       predictor_names := [''air_temperature_2m'', ''x'']\<rparr>"

text \<open>A loader with three predictor names, the last one an extra feature of type x.\<close>

definition coefficient_loader :: loader where
  "coefficient_loader =
     blank_loader\<lparr>extra_features := [\<lparr>feature_type = ''x'', feature_name = None\<rparr>],
                  num_x_input := 2, num_y_input := 1, num_input_predictors := 2,
                  num_predictors := 3,
                  predictor_names := [''air_temperature_2m'', ''precipitation'', ''x''],
                  normalization := Some ''norm.yml''\<rparr>"

section \<open>Index arithmetic\<close>

lemma ravel_lt: "list_all2 (<) idx s \<Longrightarrow> ravel s idx < prod_list s"
proof (induction s idx rule: ravel.induct)
  case (1 n s i idx)
  then have i: "i < n" and r: "ravel s idx < prod_list s" by simp_all
  have "i * prod_list s + ravel s idx < i * prod_list s + prod_list s"
    using r by simp
  also have "\<dots> = Suc i * prod_list s" by simp
  also have "\<dots> \<le> n * prod_list s" using i by (intro mult_le_mono1) simp
  finally show ?case by simp
qed (auto simp: list_all2_Cons1 list_all2_Cons2)

lemma unravel_ravel: "list_all2 (<) idx s \<Longrightarrow> unravel s (ravel s idx) = idx"
proof (induction s idx rule: ravel.induct)
  case (1 n s i idx)
  then have r: "ravel s idx < prod_list s" by (simp add: ravel_lt)
  with 1 show ?case by simp
qed (auto simp: list_all2_Cons1 list_all2_Cons2)

lemma ravel_unravel: "ravel s (unravel s k) = (if s = [] then 0 else k)"
  by (induction s arbitrary: k) auto

lemma unravel_in_range: "k < prod_list s \<Longrightarrow> list_all2 (<) (unravel s k) s"
proof (induction s arbitrary: k)
  case (Cons n s)
  then have pos: "0 < prod_list s" by (cases "prod_list s = 0") auto
  have "k div prod_list s < n"
    using Cons.prems pos by (simp add: less_mult_imp_div_less mult.commute)
  with Cons pos show ?case by simp
qed simp

lemma wf_tabulate [simp]: "wf_tensor (tabulate s f)"
  by (simp add: wf_tensor_def tabulate_def)

lemma shape_tabulate [simp]: "shape (tabulate s f) = s"
  by (simp add: tabulate_def)

lemma elem_tabulate: "list_all2 (<) idx s \<Longrightarrow> elem (tabulate s f) idx = f idx"
  by (simp add: elem_def tabulate_def ravel_lt unravel_ravel)

lemma tabulate_cong:
  assumes "\<And>idx. list_all2 (<) idx s \<Longrightarrow> f idx = g idx"
  shows "tabulate s f = tabulate s g"
  using assms by (simp add: tabulate_def unravel_in_range)

lemma tabulate_elem: "wf_tensor a \<Longrightarrow> tabulate (shape a) (elem a) = a"
proof -
  assume wf: "wf_tensor a"
  have "map (\<lambda>k. data a ! ravel (shape a) (unravel (shape a) k)) [0..<prod_list (shape a)]
        = map (\<lambda>k. data a ! k) [0..<prod_list (shape a)]"
    by (rule map_cong) (auto simp: ravel_unravel)
  also have "\<dots> = data a" using wf map_nth[of "data a"] by (simp add: wf_tensor_def)
  finally show ?thesis by (simp add: tabulate_def elem_def)
qed

lemma same_out_mult: "0 < ps \<Longrightarrow> same_out (n * ps) ps = n"
proof (cases ps)
  case (Suc m)
  have "(n * Suc m + Suc m - 1) div Suc m = (m + n * Suc m) div Suc m"
    by (simp add: add.commute)
  also have "\<dots> = n" by (simp only: div_mult_self3 div_mult_self1 div_mult_self2 div_mult_self4) simp
  finally show ?thesis using Suc by (simp add: same_out_def)
qed simp

lemma same_pad_mult: "0 < ps \<Longrightarrow> same_pad (n * ps) ps = 0"
  by (simp add: same_pad_def same_out_mult algebra_simps)

lemma in_range4:
  "list_all2 (<) idx [A, B, C, D] \<longleftrightarrow>
     (\<exists>a b c d. idx = [a, b, c, d] \<and> a < A \<and> b < B \<and> c < C \<and> d < D)"
  by (auto simp: list_all2_Cons2)

lemma tile_index_lt:
  assumes "py < ny" "px < nx"
  shows "py * nx + px < ny * (nx::nat)"
proof -
  have "py * nx + px < py * nx + nx" using assms by simp
  also have "\<dots> = Suc py * nx" by simp
  also have "\<dots> \<le> ny * nx" using assms by (intro mult_le_mono1) simp
  finally show ?thesis .
qed

lemma window_decode:
  fixes i j c ps P :: nat
  assumes "i < ps" "j < ps" "c < P"
  shows "((i * ps + j) * P + c) mod P = c"
    and "((i * ps + j) * P + c) div P div ps = i"
    and "((i * ps + j) * P + c) div P mod ps = j"
    and "(i * ps + j) * P + c < ps * ps * P"
proof -
  have "P \<noteq> 0" using assms by auto
  then have d: "((i * ps + j) * P + c) div P = i * ps + j" using assms by simp
  show "((i * ps + j) * P + c) mod P = c" using assms by simp
  show "((i * ps + j) * P + c) div P div ps = i" unfolding d using assms by simp
  show "((i * ps + j) * P + c) div P mod ps = j" unfolding d using assms by simp
  have "i * ps + j < ps * ps" using assms by (intro tile_index_lt)
  then show "(i * ps + j) * P + c < ps * ps * P" using assms by (intro tile_index_lt)
qed

lemma patch_tensor_4d:
  fixes a :: "'a::zero tensor"
  assumes sa: "shape a = [LT, Y, X, P]" and pos: "0 < ps"
  shows "\<exists>b. patch_tensor a ps = Inr b \<and>
             shape b = [LT, (Y div ps) * (X div ps), ps, ps, P] \<and> wf_tensor b \<and>
             (\<forall>l py px i j c. l < LT \<longrightarrow> py < Y div ps \<longrightarrow> px < X div ps \<longrightarrow> i < ps \<longrightarrow> j < ps \<longrightarrow> c < P \<longrightarrow>
                elem b [l, py * (X div ps) + px, i, j, c] = elem a [l, py * ps + i, px * ps + j, c])"
proof -
  define ny nx where "ny = Y div ps" and "nx = X div ps"
  define a1 where "a1 = take_axes [LT, ny * ps, nx * ps, P] a"
  have sa1: "shape a1 = [LT, ny * ps, nx * ps, P]"
    by (simp add: a1_def take_axes_def sa ny_def nx_def)
  define F where "F = (\<lambda>idx :: nat list.
                let q = idx ! 3; i = q div P div ps; j = q div P mod ps; d = q mod P
                in padded_read a1 (idx ! 0)
                     (int (idx ! 1 * ps + i) - same_pad (ny * ps) ps)
                     (int (idx ! 2 * ps + j) - same_pad (nx * ps) ps) d)"
  define t where "t = tabulate [LT, ny, nx, ps * ps * P] F"
  have ep: "extract_patches a1 ps = Inr t"
    using pos by (simp add: extract_patches_def sa1 same_out_mult F_def t_def)
  define b where "b = \<lparr>shape = [LT, ny * nx, ps, ps, P], data = data t\<rparr>"
  have len: "length (data t) = LT * (ny * (nx * (ps * ps * P)))"
    by (simp add: t_def tabulate_def)
  have res: "patch_tensor a ps = Inr b"
    using pos ep len
    by (simp add: patch_tensor_def sa Let_def a1_def[symmetric] ny_def[symmetric] nx_def[symmetric]
        bind_r_def expand_dims_def reshape_def b_def t_def)
  have wfb: "wf_tensor b" by (simp add: wf_tensor_def b_def len)
  have el: "elem b [l, py * nx + px, i, j, c] = elem a [l, py * ps + i, px * ps + j, c]"
    if "l < LT" "py < ny" "px < nx" "i < ps" "j < ps" "c < P" for l py px i j c
  proof -
    have "elem b [l, py * nx + px, i, j, c] = elem t [l, py, px, (i * ps + j) * P + c]"
      by (simp add: elem_def b_def t_def algebra_simps)
    also have "\<dots> = F [l, py, px, (i * ps + j) * P + c]"
      unfolding t_def using that window_decode(4)[of i ps j c P]
      by (intro elem_tabulate) simp
    also have "\<dots> = elem a1 [l, py * ps + i, px * ps + j, c]"
    proof -
      have "py * ps + i < ny * ps" "px * ps + j < nx * ps"
        using that tile_index_lt by simp_all
      then show ?thesis
        using that pos window_decode[of i ps j c P]
        by (simp add: F_def Let_def same_pad_mult padded_read_def sa1 del: of_nat_add of_nat_mult)
    qed
    also have "\<dots> = elem a [l, py * ps + i, px * ps + j, c]"
    proof -
      have "py * ps + i < ny * ps" "px * ps + j < nx * ps"
        using that tile_index_lt by simp_all
      then show ?thesis
        unfolding a1_def take_axes_def using that
        by (intro elem_tabulate) (simp add: sa ny_def nx_def)
    qed
    finally show ?thesis .
  qed
  show ?thesis
    using res wfb el by (auto simp: b_def ny_def nx_def)
qed

lemma unpatch_patch_tensor:
  fixes a :: "'a::zero tensor"
  assumes sa: "shape a = [LT, Y, X, P]" and pos: "0 < ps"
  shows "\<exists>b. patch_tensor a ps = Inr b \<and>
             shape b = [LT, (Y div ps) * (X div ps), ps, ps, P] \<and>
             unpatch (Y div ps) (X div ps) b =
               take_axes [LT, Y div ps * ps, X div ps * ps, P] a"
proof -
  define ny nx where "ny = Y div ps" and "nx = X div ps"
  from patch_tensor_4d[OF sa pos] obtain b where
    res: "patch_tensor a ps = Inr b" and
    sb: "shape b = [LT, ny * nx, ps, ps, P]" and
    el: "\<And>l py px i j c. l < LT \<Longrightarrow> py < ny \<Longrightarrow> px < nx \<Longrightarrow> i < ps \<Longrightarrow> j < ps \<Longrightarrow> c < P \<Longrightarrow>
           elem b [l, py * nx + px, i, j, c] = elem a [l, py * ps + i, px * ps + j, c]"
    unfolding ny_def nx_def by blast
  define G where "G = (\<lambda>idx :: nat list.
      elem b [idx ! 0, (idx ! 1 div ps) * nx + idx ! 2 div ps, idx ! 1 mod ps, idx ! 2 mod ps,
              idx ! 3])"
  have G: "G idx = elem a idx" if "list_all2 (<) idx [LT, ny * ps, nx * ps, P]" for idx
  proof -
    from that obtain l y x c where idx: "idx = [l, y, x, c]"
      and b: "l < LT" "y < ny * ps" "x < nx * ps" "c < P"
      unfolding in_range4 by blast
    have "y div ps < ny" "x div ps < nx"
      using b pos by (simp_all add: less_mult_imp_div_less)
    then have "elem b [l, y div ps * nx + x div ps, y mod ps, x mod ps, c] =
          elem a [l, y div ps * ps + y mod ps, x div ps * ps + x mod ps, c]"
      using b pos by (intro el) simp_all
    then show ?thesis by (simp add: idx G_def)
  qed
  have "unpatch ny nx b = tabulate [LT, ny * ps, nx * ps, P] G"
    by (simp add: unpatch_def sb G_def)
  also have "\<dots> = tabulate [LT, ny * ps, nx * ps, P] (elem a)"
    by (rule tabulate_cong) (rule G)
  also have "\<dots> = take_axes [LT, ny * ps, nx * ps, P] a"
    by (simp add: take_axes_def sa ny_def nx_def)
  finally show ?thesis using res sb by (auto simp: ny_def nx_def)
qed

lemma map2_min_same: "map2 min s s = (s :: nat list)"
  by (induction s) auto

lemma take_axes_full:
  assumes "shape a = s" "wf_tensor a"
  shows "take_axes s a = a"
  using assms tabulate_elem[of a] by (simp add: take_axes_def map2_min_same)

section \<open>The difference and normalization stages\<close>

lemma first_index:
  "x \<in> set xs \<Longrightarrow>
     length (takeWhile (\<lambda>n. n \<noteq> x) xs) < length xs \<and>
     xs ! length (takeWhile (\<lambda>n. n \<noteq> x) xs) = x \<and>
     x \<notin> set (take (length (takeWhile (\<lambda>n. n \<noteq> x) xs)) xs)"
  by (induction xs) auto

lemma in_range5:
  "list_all2 (<) idx [A, B, C, D, E] \<longleftrightarrow>
     (\<exists>a b c d e. idx = [a, b, c, d, e] \<and> a < A \<and> b < B \<and> c < C \<and> d < D \<and> e < E)"
  by (auto simp: list_all2_Cons2)

lemma broadcast_rev_same: "broadcast_rev s s = Some s"
  by (induction s) auto

lemma broadcast_shape_same: "broadcast_shape s s = Some s"
  by (simp add: broadcast_shape_def broadcast_rev_same)

lemma broadcast_index_id: "list_all2 (<) idx s \<Longrightarrow> broadcast_index s idx = idx"
proof -
  assume r: "list_all2 (<) idx s"
  then have "map2 (\<lambda>n i. if n = 1 then 0 else i) s idx = idx"
    by (induction rule: list_all2_induct) auto
  moreover have "length idx = length s" using r by (rule list_all2_lengthD)
  ultimately show ?thesis by (simp add: broadcast_index_def)
qed

lemma binop_same_shape:
  assumes "shape a = s" "shape b = s"
  shows "binop f a b = Inr (tabulate s (\<lambda>idx. f (elem a idx) (elem b idx)))"
proof -
  have "tabulate s (\<lambda>idx. f (elem a (broadcast_index s idx)) (elem b (broadcast_index s idx)))
        = tabulate s (\<lambda>idx. f (elem a idx) (elem b idx))"
    by (rule tabulate_cong) (simp add: broadcast_index_id)
  then show ?thesis by (simp add: binop_def assms broadcast_shape_same)
qed

lemma expand_array_rows:
  "\<exists>r. expand_array \<lparr>shape = [length vs], data = vs\<rparr> [A, B, C, D, 1] = Inr r \<and>
       shape r = [A, B, C, D, length vs] \<and>
       (\<forall>i j k l e. i < A \<longrightarrow> j < B \<longrightarrow> k < C \<longrightarrow> l < D \<longrightarrow> e < length vs \<longrightarrow>
          elem r [i, j, k, l, e] = vs ! e)"
proof -
  let ?a4 = "\<lparr>shape = [1, 1, 1, 1, length vs], data = vs\<rparr>"
  let ?r = "tabulate [A, B, C, D, length vs] (\<lambda>idx. elem ?a4 (map2 (mod) idx [1, 1, 1, 1, length vs]))"
  have res: "expand_array \<lparr>shape = [length vs], data = vs\<rparr> [A, B, C, D, 1] = Inr ?r"
    by (simp add: expand_array_def expand_dims_def tile_def bind_r_def)
  have "elem ?r [i, j, k, l, e] = vs ! e"
    if "i < A" "j < B" "k < C" "l < D" "e < length vs" for i j k l e
  proof -
    have "elem ?r [i, j, k, l, e] = elem ?a4 (map2 (mod) [i, j, k, l, e] [1, 1, 1, 1, length vs])"
      using that by (intro elem_tabulate) simp
    also have "\<dots> = vs ! e" using that by (simp add: elem_def)
    finally show ?thesis .
  qed
  then show ?thesis using res by (intro exI[of _ ?r]) simp
qed

lemma normalize_elements:
  assumes c: "coefficients L = Some tab" and sp: "shape predictors = [A, B, C, D, length tab]"
  shows "\<exists>p. normalize L predictors targets = Inr (p, targets) \<and>
             shape p = shape predictors \<and>
             (\<forall>i j k l e. i < A \<longrightarrow> j < B \<longrightarrow> k < C \<longrightarrow> l < D \<longrightarrow> e < length tab \<longrightarrow>
                elem p [i, j, k, l, e] =
                  (elem predictors [i, j, k, l, e] - fst (tab ! e)) / snd (tab ! e))"
proof -
  let ?s = "[A, B, C, D, length tab]"
  from expand_array_rows[of "map fst tab" A B C D] obtain a' where
    a: "expand_array \<lparr>shape = [length tab], data = map fst tab\<rparr> [A, B, C, D, 1] = Inr a'"
       "shape a' = ?s"
       "\<And>i j k l e. i < A \<Longrightarrow> j < B \<Longrightarrow> k < C \<Longrightarrow> l < D \<Longrightarrow> e < length tab \<Longrightarrow>
           elem a' [i, j, k, l, e] = fst (tab ! e)"
    by auto
  from expand_array_rows[of "map snd tab" A B C D] obtain s' where
    s: "expand_array \<lparr>shape = [length tab], data = map snd tab\<rparr> [A, B, C, D, 1] = Inr s'"
       "shape s' = ?s"
       "\<And>i j k l e. i < A \<Longrightarrow> j < B \<Longrightarrow> k < C \<Longrightarrow> l < D \<Longrightarrow> e < length tab \<Longrightarrow>
           elem s' [i, j, k, l, e] = snd (tab ! e)"
    by auto
  let ?p1 = "tabulate ?s (\<lambda>idx. elem predictors idx - elem a' idx)"
  let ?p = "tabulate ?s (\<lambda>idx. elem ?p1 idx / elem s' idx)"
  have sub: "tf_subtract predictors a' = Inr ?p1"
    unfolding tf_subtract_def by (rule binop_same_shape) (simp_all add: sp a(2))
  have dv: "tf_divide ?p1 s' = Inr ?p"
    unfolding tf_divide_def by (rule binop_same_shape) (simp_all add: s(2))
  have res: "normalize L predictors targets = Inr (?p, targets)"
    using a(1) s(1) sub dv by (simp add: normalize_def c sp Let_def bind_r_def)
  have "elem ?p [i, j, k, l, e] =
          (elem predictors [i, j, k, l, e] - fst (tab ! e)) / snd (tab ! e)"
    if "i < A" "j < B" "k < C" "l < D" "e < length tab" for i j k l e
  proof -
    have r: "list_all2 (<) [i, j, k, l, e] ?s" using that by simp
    show ?thesis using that a(3) s(3)
      by (simp add: elem_tabulate[OF r])
  qed
  then show ?thesis using res sp by (intro exI[of _ ?p]) simp
qed

section \<open>The feature stage\<close>

lemma feature_channel:
  assumes known: "feature_type f \<in> {''x'', ''y'', ''leadtime''}"
  shows "\<exists>c. bind_r (feature_array [LT, Y, X, P] f previous)
               (\<lambda>c1. expand_dims c1 (length (shape c1))) = Inr c \<and>
             shape c = [LT, Y, X, 1] \<and>
             (\<forall>l y x. l < LT \<longrightarrow> y < Y \<longrightarrow> x < X \<longrightarrow> elem c [l, y, x, 0] = coordinate f l y x)"
proof -
  consider (x) "feature_type f = ''x''" | (y) "feature_type f = ''y''"
    | (lt) "feature_type f = ''leadtime''"
    using known by auto
  then show ?thesis
  proof cases
    case x
    let ?t2 = "\<lparr>shape = [1, 1, X], data = map real [0..<X]\<rparr>"
    let ?b = "tabulate [LT, Y, X] (\<lambda>idx. elem ?t2 (map2 (mod) idx [1, 1, X]))"
    let ?c = "?b\<lparr>shape := [LT, Y, X, 1]\<rparr>"
    have fa: "feature_array [LT, Y, X, P] f previous = Inr ?b"
      by (simp add: feature_array_def x broadcast_def expand_dims_def tile_def bind_r_def tf_range_def)
    have el: "elem ?c [l, y, x, 0] = coordinate f l y x" if "l < LT" "y < Y" "x < X" for l y x
    proof -
      have "elem ?c [l, y, x, 0] = elem ?b [l, y, x]" by (simp add: elem_def)
      also have "\<dots> = elem ?t2 (map2 (mod) [l, y, x] [1, 1, X])"
        using that by (intro elem_tabulate) simp
      also have "\<dots> = real x" using that by (simp add: elem_def)
      finally show ?thesis by (simp add: coordinate_def x)
    qed
    show ?thesis using el by (intro exI[of _ ?c]) (simp add: fa bind_r_def expand_dims_def)
  next
    case y
    let ?t2 = "\<lparr>shape = [1, Y, 1], data = map real [0..<Y]\<rparr>"
    let ?b = "tabulate [LT, Y, X] (\<lambda>idx. elem ?t2 (map2 (mod) idx [1, Y, 1]))"
    let ?c = "?b\<lparr>shape := [LT, Y, X, 1]\<rparr>"
    have fa: "feature_array [LT, Y, X, P] f previous = Inr ?b"
      by (simp add: feature_array_def y broadcast_def expand_dims_def tile_def bind_r_def tf_range_def)
    have el: "elem ?c [l, y, x, 0] = coordinate f l y x" if "l < LT" "y < Y" "x < X" for l y x
    proof -
      have "elem ?c [l, y, x, 0] = elem ?b [l, y, x]" by (simp add: elem_def)
      also have "\<dots> = elem ?t2 (map2 (mod) [l, y, x] [1, Y, 1])"
        using that by (intro elem_tabulate) simp
      also have "\<dots> = real y" using that by (simp add: elem_def)
      finally show ?thesis by (simp add: coordinate_def y)
    qed
    show ?thesis using el by (intro exI[of _ ?c]) (simp add: fa bind_r_def expand_dims_def)
  next
    case lt
    let ?t2 = "\<lparr>shape = [LT, 1, 1], data = map real [0..<LT]\<rparr>"
    let ?b = "tabulate [LT, Y, X] (\<lambda>idx. elem ?t2 (map2 (mod) idx [LT, 1, 1]))"
    let ?c = "?b\<lparr>shape := [LT, Y, X, 1]\<rparr>"
    have fa: "feature_array [LT, Y, X, P] f previous = Inr ?b"
      by (simp add: feature_array_def lt broadcast_def expand_dims_def tile_def bind_r_def tf_range_def)
    have el: "elem ?c [l, y, x, 0] = coordinate f l y x" if "l < LT" "y < Y" "x < X" for l y x
    proof -
      have "elem ?c [l, y, x, 0] = elem ?b [l, y, x]" by (simp add: elem_def)
      also have "\<dots> = elem ?t2 (map2 (mod) [l, y, x] [LT, 1, 1])"
        using that by (intro elem_tabulate) simp
      also have "\<dots> = real l" using that by (simp add: elem_def)
      finally show ?thesis by (simp add: coordinate_def lt)
    qed
    show ?thesis using el by (intro exI[of _ ?c]) (simp add: fa bind_r_def expand_dims_def)
  qed
qed


lemma bind_r_assoc: "bind_r (bind_r m g) h = bind_r m (\<lambda>v. bind_r (g v) h)"
  by (simp add: bind_r_def split: sum.splits)

lemma extract_loop_channels:
  assumes "\<forall>f \<in> set fs. feature_type f \<in> {''x'', ''y'', ''leadtime''}"
  shows "\<exists>cs. extract_loop [LT, Y, X, P] fs previous p = Inr (p @ cs) \<and> length cs = length fs \<and>
           (\<forall>k < length fs. shape (cs ! k) = [LT, Y, X, 1] \<and>
              (\<forall>l y x. l < LT \<longrightarrow> y < Y \<longrightarrow> x < X \<longrightarrow>
                 elem (cs ! k) [l, y, x, 0] = coordinate (fs ! k) l y x))"
  using assms
proof (induction fs arbitrary: previous p)
  case Nil
  then show ?case by simp
next
  case (Cons f fs)
  from Cons.prems have kf: "feature_type f \<in> {''x'', ''y'', ''leadtime''}"
    and kfs: "\<forall>g \<in> set fs. feature_type g \<in> {''x'', ''y'', ''leadtime''}" by simp_all
  from feature_channel[OF kf, of LT Y X P previous] obtain c where
    c: "bind_r (feature_array [LT, Y, X, P] f previous)
          (\<lambda>c1. expand_dims c1 (length (shape c1))) = Inr c"
       "shape c = [LT, Y, X, 1]"
       "\<And>l y x. l < LT \<Longrightarrow> y < Y \<Longrightarrow> x < X \<Longrightarrow> elem c [l, y, x, 0] = coordinate f l y x"
    by blast
  from Cons.IH[OF kfs, of "Some c" "p @ [c]"] obtain cs where
    cs: "extract_loop [LT, Y, X, P] fs (Some c) (p @ [c]) = Inr ((p @ [c]) @ cs)"
        "length cs = length fs"
        "\<And>k. k < length fs \<Longrightarrow> shape (cs ! k) = [LT, Y, X, 1] \<and>
              (\<forall>l y x. l < LT \<longrightarrow> y < Y \<longrightarrow> x < X \<longrightarrow>
                 elem (cs ! k) [l, y, x, 0] = coordinate (fs ! k) l y x)"
    by blast
  have "extract_loop [LT, Y, X, P] (f # fs) previous p =
          bind_r (bind_r (feature_array [LT, Y, X, P] f previous)
                    (\<lambda>c1. expand_dims c1 (length (shape c1))))
            (\<lambda>c2. extract_loop [LT, Y, X, P] fs (Some c2) (p @ [c2]))"
    by (simp add: bind_r_assoc)
  also have "\<dots> = Inr (p @ (c # cs))" unfolding c(1) by (simp add: cs(1) bind_r_def)
  finally have res: "extract_loop [LT, Y, X, P] (f # fs) previous p = Inr (p @ (c # cs))" .
  have each: "shape ((c # cs) ! k) = [LT, Y, X, 1] \<and>
              (\<forall>l y x. l < LT \<longrightarrow> y < Y \<longrightarrow> x < X \<longrightarrow>
                 elem ((c # cs) ! k) [l, y, x, 0] = coordinate ((f # fs) ! k) l y x)"
    if "k < length (f # fs)" for k
    using that c(2,3) cs(3) by (cases k) auto
  show ?case using res cs(2) each by (intro exI[of _ "c # cs"]) simp
qed

lemma pick_channel_single:
  "\<forall>t \<in> set cs. shape t ! 3 = 1 \<Longrightarrow> k < length cs \<Longrightarrow>
     pick_channel cs pre k = elem (cs ! k) (pre @ [0])"
proof (induction cs arbitrary: k)
  case (Cons t cs)
  then show ?case by (cases k) auto
qed simp

lemma sum_list_ones: "\<forall>t \<in> set cs. f t = (1::nat) \<Longrightarrow> sum_list (map f cs) = length cs"
  by (induction cs) auto

section \<open>The coefficient table\<close>

lemma fill_rows_step:
  "fill_rows c (name # names) i tab =
     (if i < length tab then fill_rows c names (Suc i) (tab[i := row_of c name]) else Inl IndexError)"
  by (simp add: row_of_def split: option.splits)

lemma fill_rows_ok:
  "i + length names \<le> length tab \<Longrightarrow>
     \<exists>tab'. fill_rows c names i tab = Inr tab' \<and> length tab' = length tab \<and>
       (\<forall>j < length tab. tab' ! j =
          (if i \<le> j \<and> j < i + length names then row_of c (names ! (j - i)) else tab ! j))"
proof (induction names arbitrary: i tab)
  case Nil
  then show ?case by auto
next
  case (Cons name names)
  let ?tab = "tab[i := row_of c name]"
  from Cons.prems have i: "i < length tab" and le: "Suc i + length names \<le> length ?tab" by simp_all
  from Cons.IH[OF le] obtain tab' where
    r: "fill_rows c names (Suc i) ?tab = Inr tab'" "length tab' = length tab"
    and el: "\<And>j. j < length tab \<Longrightarrow> tab' ! j =
          (if Suc i \<le> j \<and> j < Suc i + length names then row_of c (names ! (j - Suc i)) else ?tab ! j)"
    by auto
  have "tab' ! j =
          (if i \<le> j \<and> j < i + length (name # names) then row_of c ((name # names) ! (j - i))
           else tab ! j)" if "j < length tab" for j
  proof (cases "j = i")
    case True
    then show ?thesis using el[OF that] i by simp
  next
    case False
    then have "i \<le> j \<Longrightarrow> (name # names) ! (j - i) = names ! (j - Suc i)"
      by (simp add: nth_Cons')
    then show ?thesis using False el[OF that] by auto
  qed
  then show ?case using r i by (simp only: fill_rows_step) simp
qed

lemma fill_rows_overflow:
  "i \<le> length tab \<Longrightarrow> length tab < i + length names \<Longrightarrow>
     fill_rows c names i tab = Inl IndexError"
proof (induction names arbitrary: i tab)
  case Nil
  then show ?case by simp
next
  case (Cons name names)
  show ?case
  proof (cases "i < length tab")
    case True
    then have "fill_rows c names (Suc i) (tab[i := row_of c name]) = Inl IndexError"
      using Cons.prems by (intro Cons.IH) simp_all
    then show ?thesis using True by (simp only: fill_rows_step) simp
  next
    case False
    then show ?thesis by (simp only: fill_rows_step) simp
  qed
qed

lemma map_of_merge:
  "map_of (merge_coefficients src extra) name =
     (case map_of (rev extra) name of Some v \<Rightarrow> Some v | None \<Rightarrow> map_of src name)"
  unfolding merge_coefficients_def
  by (induction extra rule: rev_induct) (auto simp: update_conv' split: option.splits)

lemma map_of_rev_distinct:
  "distinct (map fst xs) \<Longrightarrow> map_of (rev xs) k = map_of xs k"
proof (induction xs)
  case (Cons kv xs)
  obtain a b where kv: "kv = (a, b)" by (cases kv)
  have "map_of xs a = None" using Cons.prems by (simp add: kv map_of_eq_None_iff)
  then show ?case using Cons by (auto simp: kv map_add_def split: option.splits)
qed simp

lemma distinct_extra_normalization:
  "distinct (map fst (get_extra_features_normalization L fs))"
proof -
  have "distinct (map fst d) \<Longrightarrow>
        distinct (map fst (foldl (\<lambda>d f. AList.update (get_feature_name f) (feature_coefficients L f) d) d fs))"
    for d
    by (induction fs arbitrary: d) (simp_all add: distinct_update)
  then show ?thesis by (simp add: get_extra_features_normalization_def)
qed

lemma map_of_extra_normalization:
  "map_of (get_extra_features_normalization L fs) name =
     map_option (feature_coefficients L) (find (\<lambda>f. get_feature_name f = name) (rev fs))"
proof -
  have "map_of (foldl (\<lambda>d f. AList.update (get_feature_name f) (feature_coefficients L f) d) d fs) name =
        (case find (\<lambda>f. get_feature_name f = name) (rev fs) of
           Some f \<Rightarrow> Some (feature_coefficients L f) | None \<Rightarrow> map_of d name)" for d
  proof (induction fs arbitrary: d rule: rev_induct)
    case Nil
    then show ?case by simp
  next
    case (snoc f fs)
    then show ?case by (simp add: update_conv')
  qed
  then show ?thesis by (simp add: get_extra_features_normalization_def split: option.splits)
qed

lemma merged_lookup:
  "map_of (merge_coefficients src (get_extra_features_normalization L fs)) name =
     (case find (\<lambda>f. get_feature_name f = name) (rev fs) of
        Some f \<Rightarrow> Some (feature_coefficients L f)
      | None \<Rightarrow> map_of src name)"
  by (simp add: map_of_merge map_of_rev_distinct distinct_extra_normalization
      map_of_extra_normalization split: option.splits)

lemma load_coefficients_table:
  assumes n: "normalization L = Some fname" and y: "yaml_load w fname = Some src"
    and le: "length (predictor_names L) \<le> num_predictors L"
  shows "\<exists>tab. load_coefficients L w = Inr (L\<lparr>coefficients := Some tab\<rparr>) \<and>
           length tab = num_predictors L \<and>
           (\<forall>j < num_predictors L. tab ! j =
              (if j < length (predictor_names L)
               then row_of (merge_coefficients src
                              (get_extra_features_normalization L (extra_features L)))
                      (predictor_names L ! j)
               else (0, 1)))"
proof -
  let ?c = "merge_coefficients src (get_extra_features_normalization L (extra_features L))"
  let ?tab0 = "replicate (num_predictors L) (0::real, 1::real)"
  have "0 + length (predictor_names L) \<le> length ?tab0" using le by simp
  from fill_rows_ok[OF this, of ?c] obtain tab where
    r: "fill_rows ?c (predictor_names L) 0 ?tab0 = Inr tab" "length tab = length ?tab0"
    and el: "\<And>j. j < length ?tab0 \<Longrightarrow> tab ! j =
          (if 0 \<le> j \<and> j < 0 + length (predictor_names L)
           then row_of ?c (predictor_names L ! (j - 0)) else ?tab0 ! j)"
    by blast
  have "load_coefficients L w = Inr (L\<lparr>coefficients := Some tab\<rparr>)"
    by (simp add: load_coefficients_def n y r(1) bind_r_def)
  moreover have "tab ! j = (if j < length (predictor_names L) then row_of ?c (predictor_names L ! j)
                            else (0, 1))" if "j < num_predictors L" for j
    using el[of j] that by simp
  ultimately show ?thesis using r(2) by (intro exI[of _ tab]) simp
qed

lemma load_coefficients_overflow:
  assumes n: "normalization L = Some fname" and y: "yaml_load w fname = Some src"
    and gt: "num_predictors L < length (predictor_names L)"
  shows "load_coefficients L w = Inl IndexError"
proof -
  have "fill_rows (merge_coefficients src (get_extra_features_normalization L (extra_features L)))
          (predictor_names L) 0 (replicate (num_predictors L) (0, 1)) = Inl IndexError"
    using gt by (intro fill_rows_overflow) simp_all
  then show ?thesis by (simp add: load_coefficients_def n y bind_r_def)
qed

lemma load_coefficients_length:
  assumes "load_coefficients L w = Inr L'" and "coefficients L' = Some tab"
  shows "length tab = num_predictors L \<and> length (predictor_names L) \<le> num_predictors L"
proof -
  from assms obtain fname src where n: "normalization L = Some fname"
    and y: "yaml_load w fname = Some src"
    by (auto simp: load_coefficients_def split: option.splits)
  show ?thesis
  proof (cases "length (predictor_names L) \<le> num_predictors L")
    case True
    from load_coefficients_table[OF n y True] assms show ?thesis using True by auto
  next
    case False
    then have "load_coefficients L w = Inl IndexError"
      by (intro load_coefficients_overflow[OF n y]) simp
    with assms show ?thesis by simp
  qed
qed

section \<open>Construction and reading\<close>

lemma wf_archive_5: "wf_dataset archive_5"
  by code_simp

lemma py_indices_length: "py_indices n js = Inr ks \<Longrightarrow> length ks = length js"
  by (induction js arbitrary: ks) (auto simp: bind_r_def split: sum.splits)

lemma resolve_limit_length:
  "resolve_limit n (Some js) = Inr ks \<Longrightarrow> length ks = length js"
  by (simp add: resolve_limit_def py_indices_length)

lemma resolve_limit_requested:
  "resolve_limit n limit = Inr ks \<Longrightarrow> length ks = requested_length n limit"
  by (cases limit) (auto simp: resolve_limit_def requested_length_def py_indices_length)

text \<open>
  What \<open>isel\<close> announces is what a read returns: a variable that can be read has the
  dimensions of the dataset.
\<close>

lemma isel_shapes:
  assumes "isel ds0 limit = Inr ds"
  shows "ds_predictors ds = Inr p \<Longrightarrow>
           shape p = [length (ds_leadtime ds), ds_y ds, ds_x ds, length (ds_predictor ds)]"
    and "ds_static_predictors ds = Inr s \<Longrightarrow>
           shape s = [ds_y ds, ds_x ds, length (ds_static_predictor ds)]"
    and "ds_target_mean ds = Inr t \<Longrightarrow>
           shape t = [length (ds_leadtime ds), ds_y ds, ds_x ds]"
    and "lim_leadtime limit = Some js \<Longrightarrow> length (ds_leadtime ds) = length js"
  using assms
  by (auto simp: isel_def bind_r_def gather_def resolve_limit_length resolve_limit_requested
           split: sum.splits)

text \<open>The three variables are read through the same x and y indices.\<close>

lemma isel_reads_together:
  assumes "isel ds0 limit = Inr ds"
  shows "(\<exists>p. ds_predictors ds = Inr p) \<longleftrightarrow> (\<exists>t. ds_target_mean ds = Inr t)"
    and "(\<exists>s. ds_static_predictors ds = Inr s) \<longleftrightarrow> (\<exists>t. ds_target_mean ds = Inr t)"
  using assms
  by (auto simp: isel_def bind_r_def split: sum.splits)

text \<open>Without an x or y range every variable can be read.\<close>

lemma isel_reads:
  assumes "isel ds0 limit = Inr ds" and "lim_x limit = None" and "lim_y limit = None"
  shows "\<exists>p s t. ds_predictors ds = Inr p \<and> ds_static_predictors ds = Inr s \<and>
           ds_target_mean ds = Inr t"
  using assms
  by (auto simp: isel_def bind_r_def resolve_limit_def split: sum.splits)

lemma get_dimension_limits_leadtime:
  "get_dimension_limits L ds0 None = Inr limit \<Longrightarrow> lim_leadtime limit = limit_leadtimes L"
  by (auto simp: get_dimension_limits_def bind_r_def)

lemma get_dimension_limits_cong:
  assumes "limit_leadtimes L = limit_leadtimes L'" "limit_predictors L = limit_predictors L'"
    "x_range L = x_range L'" "y_range L = y_range L'"
  shows "get_dimension_limits L ds0 li = get_dimension_limits L' ds0 li"
  unfolding get_dimension_limits_def assms ..

lemma get_dimension_limits_xy:
  "get_dimension_limits L ds0 None = Inr limit \<Longrightarrow>
     lim_x limit = x_range L \<and> lim_y limit = y_range L"
  by (auto simp: get_dimension_limits_def bind_r_def)

lemma parse_file_after_isel:
  assumes o: "open_dataset w f = Some ds0" and g: "get_dimension_limits L ds0 None = Inr limit"
    and i: "isel ds0 limit = Inr ds" and r: "ds_target_mean ds = Inr t0"
  shows "\<exists>p t. parse_file L w f = Inr (p, t) \<and>
           shape p = [length (ds_leadtime ds), ds_y ds, ds_x ds,
                      length (ds_predictor ds) + length (ds_static_predictor ds)] \<and>
           shape t = [length (ds_leadtime ds), ds_y ds, ds_x ds, 1]"
proof -
  from isel_reads_together[OF i] r obtain p0 s0 where
    rp: "ds_predictors ds = Inr p0" and rs: "ds_static_predictors ds = Inr s0"
    by blast
  note sh = isel_shapes(1)[OF i rp] isel_shapes(2)[OF i rs] isel_shapes(3)[OF i r]
  let ?t = "t0\<lparr>shape := [length (ds_leadtime ds), ds_y ds, ds_x ds, 1]\<rparr>"
  have t: "expand_dims t0 3 = Inr ?t"
    by (simp add: expand_dims_def sh)
  show ?thesis
  proof (cases "length (ds_static_predictor ds) > 0")
    case False
    then have "parse_file L w f = Inr (p0, ?t)"
      by (simp add: parse_file_def o g i r rp t bind_r_def)
    then show ?thesis using False sh by simp
  next
    case True
    let ?s = "[length (ds_leadtime ds), ds_y ds, ds_x ds,
               length (ds_predictor ds) + length (ds_static_predictor ds)]"
    obtain p where m: "merge_static p0 s0 = Inr p"
      and sp: "shape p = ?s"
      by (simp add: merge_static_def concat3_def sh)
    have "parse_file L w f = Inr (p, ?t)"
      using True by (simp add: parse_file_def o g i r rp rs t m bind_r_def)
    then show ?thesis using sp by simp
  qed
qed

lemma parse_file_shapes:
  assumes "parse_file L w f = Inr (p, t)"
  shows "\<exists>ds0 limit ds. open_dataset w f = Some ds0 \<and>
           get_dimension_limits L ds0 None = Inr limit \<and> isel ds0 limit = Inr ds \<and>
           shape p = [length (ds_leadtime ds), ds_y ds, ds_x ds,
                      length (ds_predictor ds) + length (ds_static_predictor ds)] \<and>
           shape t = [length (ds_leadtime ds), ds_y ds, ds_x ds, 1]"
proof -
  from assms obtain ds0 where o: "open_dataset w f = Some ds0"
    by (auto simp: parse_file_def split: option.splits)
  from assms o obtain limit where g: "get_dimension_limits L ds0 None = Inr limit"
    by (auto simp: parse_file_def bind_r_def split: sum.splits)
  from assms o g obtain ds where i: "isel ds0 limit = Inr ds"
    by (auto simp: parse_file_def bind_r_def split: sum.splits)
  from assms o g i obtain t0 where r: "ds_target_mean ds = Inr t0"
    by (auto simp: parse_file_def bind_r_def split: sum.splits if_splits)
  from parse_file_after_isel[OF o g i r] assms show ?thesis using o g i by auto
qed

lemma load_metadata_result:
  assumes "load_metadata L0 w f = Inr L1"
  shows "\<exists>ds0 limit ds. open_dataset w f = Some ds0 \<and>
           get_dimension_limits L0 ds0 None = Inr limit \<and> isel ds0 limit = Inr ds \<and>
           L1 = L0\<lparr>leadtimes := ds_leadtime ds, num_x_input := ds_x ds, num_y_input := ds_y ds,
                   num_input_predictors := length (ds_predictor ds) + length (ds_static_predictor ds),
                   num_predictors :=
                     (case limit_predictors L0 of
                        None \<Rightarrow> length (ds_predictor ds) + length (ds_static_predictor ds) +
                                 length (extra_features L0)
                      | Some allowed \<Rightarrow> length allowed),
                   predictor_names_input := ds_predictor ds @ ds_static_predictor ds,
                   predictor_names := (ds_predictor ds @ ds_static_predictor ds) @
                                      map get_feature_name (extra_features L0),
                   num_targets := 1\<rparr>"
  using assms
  by (auto simp: load_metadata_def bind_r_def Let_def split: option.splits sum.splits if_splits)

lemma load_coefficients_result:
  "load_coefficients L w = Inr L' \<Longrightarrow> \<exists>c. L' = L\<lparr>coefficients := c\<rparr>"
  by (auto simp: load_coefficients_def bind_r_def split: option.splits sum.splits)

lemma Loader_init_result:
  assumes "Loader_init args w = Inr L"
  shows "filenames L = concat (map (glob w) (arg_filenames args)) \<and> filenames L \<noteq> [] \<and>
         limit_leadtimes L = arg_limit_leadtimes args \<and>
         limit_predictors L = arg_limit_predictors args \<and>
         x_range L = arg_x_range args \<and> y_range L = arg_y_range args \<and>
         extra_features L = arg_extra_features args \<and> fake L = arg_fake args \<and>
         (\<exists>ds0 limit ds. open_dataset w (hd (filenames L)) = Some ds0 \<and>
            get_dimension_limits L ds0 None = Inr limit \<and> isel ds0 limit = Inr ds \<and>
            leadtimes L = ds_leadtime ds \<and> num_x_input L = ds_x ds \<and> num_y_input L = ds_y ds \<and>
            num_input_predictors L = length (ds_predictor ds) + length (ds_static_predictor ds) \<and>
            predictor_names L = ds_predictor ds @ ds_static_predictor ds @
                                 map get_feature_name (extra_features L) \<and>
            num_predictors L =
              (case limit_predictors L of
                 None \<Rightarrow> length (ds_predictor ds) + length (ds_static_predictor ds) +
                          length (extra_features L)
               | Some allowed \<Rightarrow> length allowed)) \<and>
         (\<forall>tab. coefficients L = Some tab \<longrightarrow>
            length tab = num_predictors L \<and> length (predictor_names L) \<le> num_predictors L)"
proof -
  define fs where "fs = concat (map (glob w) (arg_filenames args))"
  define L0 where "L0 =
     \<lparr>show_debug = arg_debug args, filenames = fs,
      extra_features = arg_extra_features args,
      limit_predictors = arg_limit_predictors args,
      limit_leadtimes = arg_limit_leadtimes args,
      x_range = arg_x_range args, y_range = arg_y_range args,
      patch_size = arg_patch_size args, predict_diff = arg_predict_diff args,
      batch_size = arg_batch_size args, prefetch = arg_prefetch args,
      cache = arg_cache args,
      leadtimes = [], num_x_input = 0, num_y_input = 0, num_input_predictors = 0,
      num_predictors = 0, predictor_names_input = [], predictor_names = [],
      num_targets = 0, normalization = None, fake = False,
      num_parallel_calls = None, coefficients = None, logger = [],
      count_reads = 0\<rparr>"
  have init: "Loader_init args w =
      (case fs of [] \<Rightarrow> Inl IndexError
       | f0 # _ \<Rightarrow> bind_r (load_metadata L0 w f0) (\<lambda>L1.
               load_coefficients
                 (L1\<lparr>logger := Timer ''test.txt'', normalization := arg_normalization args,
                     fake := arg_fake args,
                     num_parallel_calls := arg_num_parallel_calls args\<rparr>) w))"
    unfolding Loader_init_def Let_def fs_def L0_def ..
  from assms init obtain f0 rest where fs: "fs = f0 # rest"
    by (cases fs) auto
  from assms init fs obtain L1 where
    m: "load_metadata L0 w f0 = Inr L1" and
    c: "load_coefficients (L1\<lparr>logger := Timer ''test.txt'', normalization := arg_normalization args,
                     fake := arg_fake args,
                     num_parallel_calls := arg_num_parallel_calls args\<rparr>) w = Inr L"
    by (auto simp: bind_r_def split: sum.splits)
  from load_coefficients_result[OF c] obtain cf where
    L: "L = L1\<lparr>logger := Timer ''test.txt'', normalization := arg_normalization args,
                fake := arg_fake args,
                num_parallel_calls := arg_num_parallel_calls args, coefficients := cf\<rparr>"
    by auto
  from load_metadata_result[OF m] obtain ds0 limit ds where
    o: "open_dataset w f0 = Some ds0" and g: "get_dimension_limits L0 ds0 None = Inr limit"
    and i: "isel ds0 limit = Inr ds"
    and L1: "L1 = L0\<lparr>leadtimes := ds_leadtime ds, num_x_input := ds_x ds, num_y_input := ds_y ds,
                   num_input_predictors := length (ds_predictor ds) + length (ds_static_predictor ds),
                   num_predictors :=
                     (case limit_predictors L0 of
                        None \<Rightarrow> length (ds_predictor ds) + length (ds_static_predictor ds) +
                                 length (extra_features L0)
                      | Some allowed \<Rightarrow> length allowed),
                   predictor_names_input := ds_predictor ds @ ds_static_predictor ds,
                   predictor_names := (ds_predictor ds @ ds_static_predictor ds) @
                                      map get_feature_name (extra_features L0),
                   num_targets := 1\<rparr>"
    by blast
  have g': "get_dimension_limits L ds0 None = Inr limit"
    using g get_dimension_limits_cong[of L L0 ds0 None] by (simp add: L L1)
  have hd: "hd (filenames L) = f0" by (simp add: L L1 L0_def fs)
  have cfg: "filenames L = fs" "limit_leadtimes L = arg_limit_leadtimes args"
    "limit_predictors L = arg_limit_predictors args"
    "x_range L = arg_x_range args" "y_range L = arg_y_range args"
    "extra_features L = arg_extra_features args" "fake L = arg_fake args"
    by (simp_all add: L L1 L0_def)
  have meta: "leadtimes L = ds_leadtime ds" "num_x_input L = ds_x ds" "num_y_input L = ds_y ds"
    "num_input_predictors L = length (ds_predictor ds) + length (ds_static_predictor ds)"
    "predictor_names L = ds_predictor ds @ ds_static_predictor ds @
                          map get_feature_name (extra_features L)"
    by (simp_all add: L L1 L0_def)
  have np: "num_predictors L =
              (case limit_predictors L of
                 None \<Rightarrow> length (ds_predictor ds) + length (ds_static_predictor ds) +
                          length (extra_features L)
               | Some allowed \<Rightarrow> length allowed)"
    by (simp add: L L1 L0_def split: option.splits)
  have ex: "\<exists>ds0 limit ds. open_dataset w (hd (filenames L)) = Some ds0 \<and>
            get_dimension_limits L ds0 None = Inr limit \<and> isel ds0 limit = Inr ds \<and>
            leadtimes L = ds_leadtime ds \<and> num_x_input L = ds_x ds \<and> num_y_input L = ds_y ds \<and>
            num_input_predictors L = length (ds_predictor ds) + length (ds_static_predictor ds) \<and>
            predictor_names L = ds_predictor ds @ ds_static_predictor ds @
                                 map get_feature_name (extra_features L) \<and>
            num_predictors L =
              (case limit_predictors L of
                 None \<Rightarrow> length (ds_predictor ds) + length (ds_static_predictor ds) +
                          length (extra_features L)
               | Some allowed \<Rightarrow> length allowed)"
    using o g' i meta np unfolding hd by blast
  have tab: "length tab = num_predictors L \<and> length (predictor_names L) \<le> num_predictors L"
    if "coefficients L = Some tab" for tab
    using load_coefficients_length[OF c that] by (simp add: L)
  show ?thesis
    using cfg ex tab by (simp add: fs fs_def[symmetric])
qed

text \<open>
  Without an allow-list the table has one row for each predictor name; with one, it has
  one row for each name of the allow-list.
\<close>

lemma rows_match_without_limit:
  assumes "Loader_init args w = Inr L" and "arg_limit_predictors args = None"
    and "coefficients L = Some tab"
  shows "length tab = length (predictor_names L)"
  using Loader_init_result[OF assms(1)] assms(2,3) by auto

lemma rows_are_allow_list_length:
  assumes "Loader_init args w = Inr L" and "arg_limit_predictors args = Some allowed"
    and "coefficients L = Some tab"
  shows "length tab = length allowed \<and> length (predictor_names L) \<le> length allowed"
  using Loader_init_result[OF assms(1)] assms(2,3) by auto


text \<open>
  A read of the first file that returns has the shape of the metadata, and without an x
  or y range it returns. With a range that leaves the axis the constructor returns, with
  the length of the range as metadata, and the read raises.
\<close>

lemma reads_match_metadata:
  assumes "Loader_init args w = Inr L"
  shows "parse_file L w (hd (filenames L)) = Inr (p, t) \<Longrightarrow>
           shape p = [num_leadtimes L, num_y_input L, num_x_input L, num_input_predictors L] \<and>
           shape t = [num_leadtimes L, num_y_input L, num_x_input L, 1]"
    and "arg_x_range args = None \<Longrightarrow> arg_y_range args = None \<Longrightarrow>
           \<exists>p t. parse_file L w (hd (filenames L)) = Inr (p, t)"
proof -
  from Loader_init_result[OF assms] obtain ds0 limit ds where
    o: "open_dataset w (hd (filenames L)) = Some ds0"
    and g: "get_dimension_limits L ds0 None = Inr limit" and i: "isel ds0 limit = Inr ds"
    and m: "leadtimes L = ds_leadtime ds" "num_x_input L = ds_x ds" "num_y_input L = ds_y ds"
      "num_input_predictors L = length (ds_predictor ds) + length (ds_static_predictor ds)"
    and xy: "x_range L = arg_x_range args" "y_range L = arg_y_range args"
    by blast
  show "shape p = [num_leadtimes L, num_y_input L, num_x_input L, num_input_predictors L] \<and>
        shape t = [num_leadtimes L, num_y_input L, num_x_input L, 1]"
    if pf: "parse_file L w (hd (filenames L)) = Inr (p, t)"
  proof -
    from parse_file_shapes[OF pf] o g i show ?thesis
      by (auto simp: num_leadtimes_def m)
  qed
  show "\<exists>p t. parse_file L w (hd (filenames L)) = Inr (p, t)"
    if "arg_x_range args = None" "arg_y_range args = None"
  proof -
    from get_dimension_limits_xy[OF g] xy that
    have "lim_x limit = None" "lim_y limit = None" by simp_all
    from isel_reads[OF i this] obtain t0 where "ds_target_mean ds = Inr t0" by blast
    from parse_file_after_isel[OF o g i this] show ?thesis by blast
  qed
qed

lemma reads_match_limit:
  assumes r: "Loader_init args w = Inr L" and l: "arg_limit_leadtimes args = Some js"
  shows "num_leadtimes L = length js"
    and "parse_file L w f = Inr (p, t) \<Longrightarrow> hd (shape p) = length js \<and> hd (shape t) = length js"
    and "load_file L w i = Inr ((p, t), L') \<Longrightarrow>
           hd (shape p) = length js \<and> hd (shape t) = length js"
proof -
  from Loader_init_result[OF r] l obtain ds0 limit ds where
    ll: "limit_leadtimes L = Some js"
    and g: "get_dimension_limits L ds0 None = Inr limit" and i: "isel ds0 limit = Inr ds"
    and m: "leadtimes L = ds_leadtime ds"
    by auto
  have "lim_leadtime limit = Some js"
    using get_dimension_limits_leadtime[OF g] ll by simp
  from isel_shapes(4)[OF i this] show n: "num_leadtimes L = length js"
    by (simp add: num_leadtimes_def m)
  show pf: "hd (shape p) = length js \<and> hd (shape t) = length js"
    if "parse_file L w f = Inr (p, t)" for f p t
  proof -
    from parse_file_shapes[OF that] obtain ds0' limit' ds' where
      g': "get_dimension_limits L ds0' None = Inr limit'" and i': "isel ds0' limit' = Inr ds'"
      and sh: "shape p = [length (ds_leadtime ds'), ds_y ds', ds_x ds',
                      length (ds_predictor ds') + length (ds_static_predictor ds')]"
              "shape t = [length (ds_leadtime ds'), ds_y ds', ds_x ds', 1]"
      by blast
    have "lim_leadtime limit' = Some js"
      using get_dimension_limits_leadtime[OF g'] ll by simp
    from isel_shapes(4)[OF i' this] sh show ?thesis by simp
  qed
  show "hd (shape p) = length js \<and> hd (shape t) = length js"
    if lf: "load_file L w i = Inr ((p, t), L')"
  proof (cases "fake L")
    case True
    with lf have "(p, t) = generate_fake_data L"
      by (auto simp: load_file_def bind_r_def split: if_splits)
    then show ?thesis using n by (simp add: generate_fake_data_def zeros_def)
  next
    case False
    with lf have "parse_file L w (filenames L ! i) = Inr (p, t)"
      by (auto simp: load_file_def bind_r_def split: if_splits sum.splits)
    then show ?thesis by (rule pf)
  qed
qed

text \<open>
  An x range that leaves the axis: the constructor returns, with the length of the range
  as \<open>num_x_input\<close>, and reading the file raises.
\<close>

lemma out_of_range_read:
  "from_config wide_range_config example_world = Inr wide_range_loader \<and>
   num_x_input wide_range_loader = 3 \<and> ds_x archive_5 = 2 \<and>
   parse_file wide_range_loader example_world ''data/a.nc'' = Inl IndexError"
  by code_simp

lemma parse_range_1_3: "parse_range (RangeStr ''1:3'') = Inr [1, 2]"
  by code_simp

lemma from_config_result:
  assumes "from_config config w = Inr L"
  shows "\<exists>xr yr lt. parse_range_opt (arg_x_range config) = Inr xr \<and>
           parse_range_opt (arg_y_range config) = Inr yr \<and>
           parse_range_opt (arg_limit_leadtimes config) = Inr lt \<and>
           Loader_init
             \<lparr>arg_filenames = arg_filenames config, arg_limit_leadtimes = lt,
              arg_limit_predictors = arg_limit_predictors config,
              arg_x_range = xr, arg_y_range = yr,
              arg_normalization = arg_normalization config,
              arg_patch_size = arg_patch_size config,
              arg_predict_diff = arg_predict_diff config,
              arg_batch_size = arg_batch_size config, arg_prefetch = arg_prefetch config,
              arg_cache = arg_cache config,
              arg_num_parallel_calls = arg_num_parallel_calls config,
              arg_extra_features = arg_extra_features config,
              arg_debug = arg_debug config, arg_fake = arg_fake config\<rparr> w = Inr L"
  using assms by (auto simp: from_config_def bind_r_def split: sum.splits)

section \<open>Claims\<close>

text \<open>
  C1. With a patch size \<open>ps > 0\<close>, the patch stage turns predictors of shape
  \<open>(LT, Y, X, P)\<close> and targets of shape \<open>(LT, Y, X, T)\<close> into arrays of shape
  \<open>(LT, (Y div ps) * (X div ps), ps, ps, channels)\<close>. Putting the tiles back in
  row-major tile order (tile \<open>py * (X div ps) + px\<close> at rows \<open>py * ps ..\<close> and columns
  \<open>px * ps ..\<close>) gives the input cut to its first \<open>Y div ps * ps\<close> rows and
  \<open>X div ps * ps\<close> columns; when \<open>ps\<close> divides both extents, that is the input itself.
\<close>

theorem patch_then_unpatch:
  fixes predictors targets :: "'a::zero tensor"
  assumes "patch_size L = Some ps" and "0 < ps"
    and "shape predictors = [LT, Y, X, P]" and "wf_tensor predictors"
    and "shape targets = [LT, Y, X, T]" and "wf_tensor targets"
  shows "\<exists>p t. patch L predictors targets = Inr (p, t) \<and>
           shape p = [LT, (Y div ps) * (X div ps), ps, ps, P] \<and>
           shape t = [LT, (Y div ps) * (X div ps), ps, ps, T] \<and>
           unpatch (Y div ps) (X div ps) p =
             take_axes [LT, Y div ps * ps, X div ps * ps, P] predictors \<and>
           unpatch (Y div ps) (X div ps) t =
             take_axes [LT, Y div ps * ps, X div ps * ps, T] targets \<and>
           (ps dvd Y \<longrightarrow> ps dvd X \<longrightarrow>
              unpatch (Y div ps) (X div ps) p = predictors \<and>
              unpatch (Y div ps) (X div ps) t = targets)"
proof -
  from unpatch_patch_tensor[OF assms(3) assms(2)] obtain p where
    p: "patch_tensor predictors ps = Inr p"
       "shape p = [LT, (Y div ps) * (X div ps), ps, ps, P]"
       "unpatch (Y div ps) (X div ps) p =
          take_axes [LT, Y div ps * ps, X div ps * ps, P] predictors"
    by blast
  from unpatch_patch_tensor[OF assms(5) assms(2)] obtain t where
    t: "patch_tensor targets ps = Inr t"
       "shape t = [LT, (Y div ps) * (X div ps), ps, ps, T]"
       "unpatch (Y div ps) (X div ps) t =
          take_axes [LT, Y div ps * ps, X div ps * ps, T] targets"
    by blast
  have res: "patch L predictors targets = Inr (p, t)"
    by (simp add: patch_def assms(1) p(1) t(1) bind_r_def)
  have full: "unpatch (Y div ps) (X div ps) p = predictors \<and>
              unpatch (Y div ps) (X div ps) t = targets" if "ps dvd Y" "ps dvd X"
    using that p(3) t(3) take_axes_full[OF assms(3) assms(4)] take_axes_full[OF assms(5) assms(6)]
    by simp
  show ?thesis using res p(2,3) t(2,3) full by blast
qed

text \<open>C1 at a 2 by 4 grid cut into two tiles of size 2.\<close>

theorem patch_then_unpatch_witness:
  "\<exists>p t. patch (blank_loader\<lparr>patch_size := Some 2\<rparr>) grid_2x4 targets_2x4 = Inr (p, t) \<and>
         shape p = [1, 2, 2, 2, 1] \<and> shape t = [1, 2, 2, 2, 1] \<and>
         unpatch 1 2 p = grid_2x4 \<and> unpatch 1 2 t = targets_2x4"
  using patch_then_unpatch[of "blank_loader\<lparr>patch_size := Some 2\<rparr>" 2 grid_2x4 1 2 4 1 targets_2x4 1]
  by (simp add: grid_2x4_def targets_2x4_def wf_tensor_def) blast

lemma patch_grid_2x4:
  "patch (blank_loader\<lparr>patch_size := Some 2\<rparr>) grid_2x4 targets_2x4 =
     Inr (\<lparr>shape = [1, 2, 2, 2, 1], data = [1, 2, 5, 6, 3, 4, 7, 8]\<rparr>,
          \<lparr>shape = [1, 2, 2, 2, 1], data = [10, 20, 50, 60, 30, 40, 70, 80]\<rparr>)"
  by code_simp

text \<open>
  C5. On predictors of shape \<open>(LT, Y, X, P)\<close>, with every configured feature of one of
  the three known types, \<open>extract_features\<close> returns the targets as they are and
  predictors of shape \<open>(LT, Y, X, P + number of features)\<close>: the input channels are
  unchanged, and the channel of the \<open>k\<close>-th feature, when its type is \<open>x\<close>, is channel
  \<open>P + k\<close> and holds the x index at every lead time and row. With two input channels
  and one feature of type x, that is channel 2.
\<close>

theorem extract_features_appends:
  assumes sp: "shape predictors = [LT, Y, X, P]"
    and known: "\<forall>f \<in> set (extra_features L). feature_type f \<in> {''x'', ''y'', ''leadtime''}"
  shows "\<exists>p. extract_features L predictors targets = Inr (p, targets) \<and>
             shape p = [LT, Y, X, P + length (extra_features L)] \<and>
             (\<forall>l y x c. l < LT \<longrightarrow> y < Y \<longrightarrow> x < X \<longrightarrow> c < P \<longrightarrow>
                elem p [l, y, x, c] = elem predictors [l, y, x, c]) \<and>
             (\<forall>k l y x. k < length (extra_features L) \<longrightarrow>
                feature_type (extra_features L ! k) = ''x'' \<longrightarrow> l < LT \<longrightarrow> y < Y \<longrightarrow> x < X \<longrightarrow>
                elem p [l, y, x, P + k] = real x)"
proof -
  let ?fs = "extra_features L"
  from extract_loop_channels[OF known, of LT Y X P None "[predictors]"] obtain cs where
    cs: "extract_loop [LT, Y, X, P] ?fs None [predictors] = Inr ([predictors] @ cs)"
        "length cs = length ?fs"
        "\<And>k. k < length ?fs \<Longrightarrow> shape (cs ! k) = [LT, Y, X, 1]"
        "\<And>k l y x. k < length ?fs \<Longrightarrow> l < LT \<Longrightarrow> y < Y \<Longrightarrow> x < X \<Longrightarrow>
            elem (cs ! k) [l, y, x, 0] = coordinate (?fs ! k) l y x"
    by blast
  have shapes: "\<forall>t \<in> set cs. shape t = [LT, Y, X, 1]"
    using cs(2,3) by (auto simp: in_set_conv_nth)
  then have ones: "\<forall>t \<in> set cs. shape t ! 3 = 1" by simp
  let ?ts = "predictors # cs"
  let ?p = "tabulate [LT, Y, X, P + length ?fs]
              (\<lambda>idx. pick_channel ?ts (take 3 idx) (idx ! 3))"
  have ok: "list_all (\<lambda>t. length (shape t) = 4 \<and> take 3 (shape t) = take 3 (shape predictors)) ?ts"
    using shapes by (simp add: sp list_all_iff)
  have "sum_list (map (\<lambda>t. shape t ! 3) ?ts) = P + length ?fs"
    using sum_list_ones[OF ones] by (simp add: sp cs(2))
  then have cat: "concat3 ?ts = Inr ?p"
    using ok by (simp add: concat3_def sp)
  have res: "extract_features L predictors targets = Inr (?p, targets)"
    by (simp add: extract_features_def sp cs(1) cat bind_r_def)
  have base: "elem ?p [l, y, x, c] = elem predictors [l, y, x, c]"
    if "l < LT" "y < Y" "x < X" "c < P" for l y x c
  proof -
    have "elem ?p [l, y, x, c] = pick_channel ?ts (take 3 [l, y, x, c]) ([l, y, x, c] ! 3)"
      using that by (intro elem_tabulate) simp
    then show ?thesis using that by (simp add: sp)
  qed
  have extra: "elem ?p [l, y, x, P + k] = real x"
    if "k < length ?fs" "feature_type (?fs ! k) = ''x''" "l < LT" "y < Y" "x < X" for k l y x
  proof -
    have "elem ?p [l, y, x, P + k] =
            pick_channel ?ts (take 3 [l, y, x, P + k]) ([l, y, x, P + k] ! 3)"
      using that by (intro elem_tabulate) simp
    also have "\<dots> = pick_channel cs [l, y, x] k" by (simp add: sp)
    also have "\<dots> = elem (cs ! k) ([l, y, x] @ [0])"
      using that ones by (intro pick_channel_single) (simp_all add: cs(2))
    also have "\<dots> = coordinate (?fs ! k) l y x" using that cs(4) by simp
    finally show ?thesis using that by (simp add: coordinate_def)
  qed
  show ?thesis using res base extra by (intro exI[of _ ?p]) simp
qed

text \<open>C5 at two input channels and one feature of type x.\<close>

theorem extract_features_appends_witness:
  "\<exists>p. extract_features x_feature_loader grid_1x2x2 targets_1x2 = Inr (p, targets_1x2) \<and>
       shape p = [1, 1, 2, 3] \<and> elem p [0, 0, 0, 2] = 0 \<and> elem p [0, 0, 1, 2] = 1"
proof -
  have "\<exists>p. extract_features x_feature_loader grid_1x2x2 targets_1x2 = Inr (p, targets_1x2) \<and>
          shape p = [1, 1, 2, 2 + length (extra_features x_feature_loader)] \<and>
          (\<forall>l y x c. l < 1 \<longrightarrow> y < 1 \<longrightarrow> x < 2 \<longrightarrow> c < 2 \<longrightarrow>
             elem p [l, y, x, c] = elem grid_1x2x2 [l, y, x, c]) \<and>
          (\<forall>k l y x. k < length (extra_features x_feature_loader) \<longrightarrow>
             feature_type (extra_features x_feature_loader ! k) = ''x'' \<longrightarrow>
             l < 1 \<longrightarrow> y < 1 \<longrightarrow> x < 2 \<longrightarrow> elem p [l, y, x, 2 + k] = real x)"
    by (rule extract_features_appends)
       (simp_all add: grid_1x2x2_def x_feature_loader_def blank_loader_def)
  then obtain p where
    r: "extract_features x_feature_loader grid_1x2x2 targets_1x2 = Inr (p, targets_1x2)"
       "shape p = [1, 1, 2, 2 + length (extra_features x_feature_loader)]"
    and x: "\<And>k l y x. k < length (extra_features x_feature_loader) \<Longrightarrow>
             feature_type (extra_features x_feature_loader ! k) = ''x'' \<Longrightarrow>
             l < 1 \<Longrightarrow> y < 1 \<Longrightarrow> x < 2 \<Longrightarrow> elem p [l, y, x, 2 + k] = real x"
    by blast
  have "elem p [0, 0, 0, 2 + 0] = real 0" "elem p [0, 0, 1, 2 + 0] = real 1"
    by (rule x; simp add: x_feature_loader_def blank_loader_def)+
  then show ?thesis using r by (intro exI[of _ p]) (simp add: x_feature_loader_def blank_loader_def)
qed

lemma extract_features_example:
  "extract_features x_feature_loader grid_1x2x2 targets_1x2 =
     Inr (\<lparr>shape = [1, 1, 2, 3], data = [5, 6, 0, 7, 8, 1]\<rparr>, targets_1x2)"
  by code_simp

text \<open>
  C6. With \<open>predict_diff\<close> off, the difference stage returns predictors and targets as
  they are; with any configuration, the predictors it returns are the predictors it was
  given.
\<close>

theorem diff_identity_and_frame:
  "(\<not> predict_diff L \<longrightarrow> diff L predictors targets = Inr (predictors, targets)) \<and>
   (\<forall>p t. diff L predictors targets = Inr (p, t) \<longrightarrow> p = predictors)"
  by (auto simp: diff_def raw_predictor_index_def bind_r_def split: sum.splits option.splits)

lemma diff_example:
  "diff (blank_loader\<lparr>predict_diff := True,
                       predictor_names := [''precipitation'', ''air_temperature_2m'']\<rparr>)
     \<lparr>shape = [1, 1, 1, 2, 2], data = [1, 2, 3, 4]\<rparr>
     \<lparr>shape = [1, 1, 1, 2, 1], data = [10, 20]\<rparr> =
   Inr (\<lparr>shape = [1, 1, 1, 2, 2], data = [1, 2, 3, 4]\<rparr>,
        \<lparr>shape = [1, 1, 1, 2, 1], data = [8, 16]\<rparr>)"
  by code_simp

text \<open>C6 at a loader with \<open>predict_diff\<close> off, and at one with it on.\<close>

theorem diff_identity_and_frame_witness:
  "diff blank_loader \<lparr>shape = [1, 1, 1, 2, 2], data = [1, 2, 3, 4]\<rparr>
     \<lparr>shape = [1, 1, 1, 2, 1], data = [10, 20]\<rparr> =
   Inr (\<lparr>shape = [1, 1, 1, 2, 2], data = [1, 2, 3, 4]\<rparr>,
        \<lparr>shape = [1, 1, 1, 2, 1], data = [10, 20]\<rparr>) \<and>
   (\<exists>t. diff (blank_loader\<lparr>predict_diff := True,
                  predictor_names := [''precipitation'', ''air_temperature_2m'']\<rparr>)
          \<lparr>shape = [1, 1, 1, 2, 2], data = [1, 2, 3, 4]\<rparr>
          \<lparr>shape = [1, 1, 1, 2, 1], data = [10, 20]\<rparr> =
        Inr (\<lparr>shape = [1, 1, 1, 2, 2], data = [1, 2, 3, 4]\<rparr>, t))"
  using diff_identity_and_frame[of blank_loader "\<lparr>shape = [1, 1, 1, 2, 2], data = [1, 2, 3, 4]\<rparr>"
          "\<lparr>shape = [1, 1, 1, 2, 1], data = [10, 20]\<rparr>"]
    diff_identity_and_frame[of "blank_loader\<lparr>predict_diff := True,
                  predictor_names := [''precipitation'', ''air_temperature_2m'']\<rparr>"
          "\<lparr>shape = [1, 1, 1, 2, 2], data = [1, 2, 3, 4]\<rparr>"
          "\<lparr>shape = [1, 1, 1, 2, 1], data = [10, 20]\<rparr>"]
    diff_example
  by (simp add: blank_loader_def)

text \<open>
  C9. With \<open>predict_diff\<close> on, the raw forecast channel is the first position of the name
  \<open>air_temperature_2m\<close> in the predictor names; when the name is not among them, the
  lookup raises, and so does the difference stage.
\<close>

theorem raw_predictor_lookup:
  assumes "predict_diff L"
  shows "(''air_temperature_2m'' \<in> set (predictor_names L) \<longrightarrow>
            (\<exists>i. raw_predictor_index L = Inr (Some i) \<and> i < length (predictor_names L) \<and>
                 predictor_names L ! i = ''air_temperature_2m'' \<and>
                 ''air_temperature_2m'' \<notin> set (take i (predictor_names L)))) \<and>
         (''air_temperature_2m'' \<notin> set (predictor_names L) \<longrightarrow>
            raw_predictor_index L = Inl (ValueError ''is not in list'') \<and>
            diff L predictors targets = Inl (ValueError ''is not in list''))"
proof -
  let ?n = "''air_temperature_2m''"
  let ?i = "length (takeWhile (\<lambda>n. n \<noteq> ?n) (predictor_names L))"
  have present: "?i < length (predictor_names L) \<and> predictor_names L ! ?i = ?n \<and>
                 ?n \<notin> set (take ?i (predictor_names L))"
    if "?n \<in> set (predictor_names L)"
    using first_index[OF that] .
  show ?thesis
    using assms present
    by (auto simp: raw_predictor_index_def list_index_def diff_def bind_r_def)
qed

text \<open>C9 at a name list with the name in second position, and at one without it.\<close>

theorem raw_predictor_lookup_witness:
  "raw_predictor_index (blank_loader\<lparr>predict_diff := True,
       predictor_names := [''precipitation'', ''air_temperature_2m'']\<rparr>) = Inr (Some 1) \<and>
   diff (blank_loader\<lparr>predict_diff := True, predictor_names := [''precipitation'']\<rparr>)
     \<lparr>shape = [1, 1, 1, 2, 1], data = [1, 2]\<rparr> \<lparr>shape = [1, 1, 1, 2, 1], data = [10, 20]\<rparr> =
   Inl (ValueError ''is not in list'')"
  using raw_predictor_lookup[of "blank_loader\<lparr>predict_diff := True,
       predictor_names := [''precipitation'', ''air_temperature_2m'']\<rparr>"]
    raw_predictor_lookup[of "blank_loader\<lparr>predict_diff := True, predictor_names := [''precipitation'']\<rparr>"
      "\<lparr>shape = [1, 1, 1, 2, 1], data = [1, 2]\<rparr>" "\<lparr>shape = [1, 1, 1, 2, 1], data = [10, 20]\<rparr>"]
  by (auto simp: less_Suc_eq)

text \<open>
  C10. The normalization stage returns the targets it was given: without a coefficient
  table it returns both arrays as they are, and with one, whenever it returns. With a
  table of as many rows as the predictors have channels it does return, and channel \<open>e\<close>
  of the predictors has the mean of row \<open>e\<close> subtracted and is divided by its scale
  (stated for a scale other than zero, where the real quotient is the float quotient up
  to rounding).
\<close>

theorem normalize_keeps_targets:
  "(coefficients L = None \<longrightarrow> normalize L predictors targets = Inr (predictors, targets)) \<and>
   (\<forall>p t. normalize L predictors targets = Inr (p, t) \<longrightarrow> t = targets) \<and>
   (\<forall>tab A B C D.
      coefficients L = Some tab \<longrightarrow> shape predictors = [A, B, C, D, length tab] \<longrightarrow>
      (\<exists>p. normalize L predictors targets = Inr (p, targets) \<and> shape p = shape predictors \<and>
           (\<forall>i j k l e. i < A \<longrightarrow> j < B \<longrightarrow> k < C \<longrightarrow> l < D \<longrightarrow> e < length tab \<longrightarrow>
              snd (tab ! e) \<noteq> 0 \<longrightarrow>
              elem p [i, j, k, l, e] =
                (elem predictors [i, j, k, l, e] - fst (tab ! e)) / snd (tab ! e))))"
proof (intro conjI allI impI)
  assume "coefficients L = None"
  then show "normalize L predictors targets = Inr (predictors, targets)"
    by (simp add: normalize_def)
next
  fix p t assume "normalize L predictors targets = Inr (p, t)"
  then show "t = targets"
    by (auto simp: normalize_def bind_r_def Let_def split: sum.splits option.splits)
next
  fix tab A B C D
  assume "coefficients L = Some tab" "shape predictors = [A, B, C, D, length tab]"
  from normalize_elements[OF this, of targets]
  show "\<exists>p. normalize L predictors targets = Inr (p, targets) \<and> shape p = shape predictors \<and>
           (\<forall>i j k l e. i < A \<longrightarrow> j < B \<longrightarrow> k < C \<longrightarrow> l < D \<longrightarrow> e < length tab \<longrightarrow>
              snd (tab ! e) \<noteq> 0 \<longrightarrow>
              elem p [i, j, k, l, e] =
                (elem predictors [i, j, k, l, e] - fst (tab ! e)) / snd (tab ! e))"
    by blast
qed

lemma normalize_example:
  "normalize (blank_loader\<lparr>coefficients := Some [(1, 2), (0, 4)]\<rparr>)
     \<lparr>shape = [1, 1, 1, 2, 2], data = [1, 2, 3, 4]\<rparr>
     \<lparr>shape = [1, 1, 1, 2, 1], data = [10, 20]\<rparr> =
   Inr (\<lparr>shape = [1, 1, 1, 2, 2], data = [0, 1/2, 1, 1]\<rparr>,
        \<lparr>shape = [1, 1, 1, 2, 1], data = [10, 20]\<rparr>)"
  by code_simp

text \<open>C10 at a table of two rows.\<close>

theorem normalize_keeps_targets_witness:
  "\<exists>p. normalize (blank_loader\<lparr>coefficients := Some [(1, 2), (0, 4)]\<rparr>)
           \<lparr>shape = [1, 1, 1, 2, 2], data = [1, 2, 3, 4]\<rparr>
           \<lparr>shape = [1, 1, 1, 2, 1], data = [10, 20]\<rparr> =
         Inr (p, \<lparr>shape = [1, 1, 1, 2, 1], data = [10, 20]\<rparr>) \<and>
       shape p = [1, 1, 1, 2, 2]"
  using normalize_keeps_targets[of "blank_loader\<lparr>coefficients := Some [(1, 2), (0, 4)]\<rparr>"
          "\<lparr>shape = [1, 1, 1, 2, 2], data = [1, 2, 3, 4]\<rparr>"
          "\<lparr>shape = [1, 1, 1, 2, 1], data = [10, 20]\<rparr>",
          THEN conjunct2, THEN conjunct2, rule_format, of "[(1, 2), (0, 4)]" 1 1 1 2]
  by (simp add: blank_loader_def) blast

text \<open>
  The build of the table where the table has a row for every predictor name:
  \<open>load_coefficients\<close> returns a table whose row \<open>i\<close> is the entry of predictor
  name \<open>i\<close> in the merged mapping, or \<open>(0, 1)\<close> when the name has none. The merged
  mapping answers a name with the coefficients of the last extra feature of that name, if
  there is one, and with the file's entry otherwise: the features are inserted after the
  file is read and before the rows are looked up. The coefficients of a feature of type
  x, y or leadtime are the mean and the standard deviation of \<open>0, ..., N - 1\<close> for the
  length \<open>N\<close> of that axis.
\<close>

lemma coefficient_rows:
  assumes "normalization L = Some fname" and "yaml_load w fname = Some src"
    and "length (predictor_names L) \<le> num_predictors L"
  shows "\<exists>tab. load_coefficients L w = Inr (L\<lparr>coefficients := Some tab\<rparr>) \<and>
           (\<forall>i < length (predictor_names L). tab ! i =
              (case map_of (merge_coefficients src
                              (get_extra_features_normalization L (extra_features L)))
                      (predictor_names L ! i) of
                 Some v \<Rightarrow> v | None \<Rightarrow> (0, 1))) \<and>
           (\<forall>name. map_of (merge_coefficients src
                              (get_extra_features_normalization L (extra_features L))) name =
              (case find (\<lambda>f. get_feature_name f = name) (rev (extra_features L)) of
                 Some f \<Rightarrow> Some (feature_coefficients L f)
               | None \<Rightarrow> map_of src name)) \<and>
           (\<forall>f. feature_type f = ''x'' \<longrightarrow> feature_coefficients L f =
              (np_mean (map real [0..<num_x_input L]), np_std (map real [0..<num_x_input L]))) \<and>
           (\<forall>f. feature_type f = ''y'' \<longrightarrow> feature_coefficients L f =
              (np_mean (map real [0..<num_y_input L]), np_std (map real [0..<num_y_input L]))) \<and>
           (\<forall>f. feature_type f = ''leadtime'' \<longrightarrow> feature_coefficients L f =
              (np_mean (map real [0..<num_leadtimes L]), np_std (map real [0..<num_leadtimes L])))"
proof -
  from load_coefficients_table[OF assms] obtain tab where
    r: "load_coefficients L w = Inr (L\<lparr>coefficients := Some tab\<rparr>)"
    and el: "\<And>j. j < num_predictors L \<Longrightarrow> tab ! j =
              (if j < length (predictor_names L)
               then row_of (merge_coefficients src
                              (get_extra_features_normalization L (extra_features L)))
                      (predictor_names L ! j)
               else (0, 1))"
    by blast
  have rows: "\<forall>i < length (predictor_names L). tab ! i =
              (case map_of (merge_coefficients src
                              (get_extra_features_normalization L (extra_features L)))
                      (predictor_names L ! i) of
                 Some v \<Rightarrow> v | None \<Rightarrow> (0, 1))"
    using el assms(3) by (simp add: row_of_def)
  show ?thesis
    using r rows
    by (intro exI[of _ tab]) (simp add: merged_lookup feature_coefficients_def np_arange_def)
qed

text \<open>The build at a file with one entry and one feature of type x on an x axis of length 2.\<close>

lemma coefficient_rows_witness:
  "\<exists>tab. load_coefficients coefficient_loader example_world =
           Inr (coefficient_loader\<lparr>coefficients := Some tab\<rparr>) \<and>
         tab ! 0 = (280, 10) \<and> tab ! 1 = (0, 1) \<and>
         tab ! 2 = (np_mean (map real [0..<2]), np_std (map real [0..<2]))"
proof -
  let ?L = coefficient_loader
  let ?src = "[(''air_temperature_2m'', (280::real, 10::real))]"
  have n: "normalization ?L = Some ''norm.yml''"
    and y: "yaml_load example_world ''norm.yml'' = Some ?src"
    and le: "length (predictor_names ?L) \<le> num_predictors ?L"
    by (simp_all add: coefficient_loader_def blank_loader_def example_world_def)
  from coefficient_rows[OF n y le] obtain tab where
    r: "load_coefficients ?L example_world = Inr (?L\<lparr>coefficients := Some tab\<rparr>)"
    and rows: "\<And>i. i < length (predictor_names ?L) \<Longrightarrow> tab ! i =
              (case map_of (merge_coefficients ?src
                              (get_extra_features_normalization ?L (extra_features ?L)))
                      (predictor_names ?L ! i) of
                 Some v \<Rightarrow> v | None \<Rightarrow> (0, 1))"
    and look: "\<And>name. map_of (merge_coefficients ?src
                              (get_extra_features_normalization ?L (extra_features ?L))) name =
              (case find (\<lambda>f. get_feature_name f = name) (rev (extra_features ?L)) of
                 Some f \<Rightarrow> Some (feature_coefficients ?L f)
               | None \<Rightarrow> map_of ?src name)"
    and xs: "\<And>f. feature_type f = ''x'' \<Longrightarrow> feature_coefficients ?L f =
              (np_mean (map real [0..<num_x_input ?L]), np_std (map real [0..<num_x_input ?L]))"
    by blast
  have names: "predictor_names ?L = [''air_temperature_2m'', ''precipitation'', ''x'']"
    and fs: "extra_features ?L = [\<lparr>feature_type = ''x'', feature_name = None\<rparr>]"
    and nx: "num_x_input ?L = 2"
    by (simp_all add: coefficient_loader_def blank_loader_def)
  have "tab ! 0 = (280, 10)" "tab ! 1 = (0, 1)"
       "tab ! 2 = (np_mean (map real [0..<2]), np_std (map real [0..<2]))"
    using rows[of 0] rows[of 1] rows[of 2]
    by (simp_all add: names fs look[unfolded fs] xs[unfolded nx] get_feature_name_def)
  then show ?thesis using r by blast
qed

text \<open>
  C3. The code at an allow-list of one predictor with an extra feature of type x. The
  constructor without a normalization file returns a loader with the two predictor names
  \<open>air_temperature_2m\<close> and \<open>x\<close>, and \<open>num_predictors = 1\<close>. With the
  normalization file, the merged mapping has an entry for each of the two names, the one
  for \<open>x\<close> being the analytic coefficients of the x axis; the table has one row, and
  \<open>load_coefficients\<close> raises \<open>IndexError\<close> where it sets row 1, so that no row is
  set from the mapping and no table is built.
\<close>

theorem coefficient_row_outside_table:
  "Loader_init (overflow_args\<lparr>arg_normalization := None\<rparr>) example_world =
     Inr allow_list_loader \<and>
   predictor_names allow_list_loader = [''air_temperature_2m'', ''x''] \<and>
   num_predictors allow_list_loader = 1 \<and>
   yaml_load example_world ''norm.yml'' = Some [(''air_temperature_2m'', (280, 10))] \<and>
   map (map_of (merge_coefficients [(''air_temperature_2m'', (280, 10))]
                  (get_extra_features_normalization allow_list_loader
                     (extra_features allow_list_loader))))
       (predictor_names allow_list_loader) =
     [Some (280, 10), Some (np_mean (np_arange 2), np_std (np_arange 2))] \<and>
   load_coefficients (allow_list_loader\<lparr>normalization := Some ''norm.yml''\<rparr>) example_world =
     Inl IndexError"
  by code_simp

text \<open>
  C8, as the claim states it, fails: constructing a loader with a normalization file
  that gives \<open>precipitation\<close> the scale 0 returns a loader, and its table holds that
  scale.
\<close>

theorem zero_scale_counterexample:
  "Loader_init zero_scale_args example_world =
     Inr (blank_loader\<lparr>filenames := [''data/a.nc''], leadtimes := [0, 1, 2, 3, 4],
            num_x_input := 2, num_y_input := 1, num_input_predictors := 2, num_predictors := 2,
            predictor_names_input := [''air_temperature_2m'', ''precipitation''],
            predictor_names := [''air_temperature_2m'', ''precipitation''],
            normalization := Some ''zero.yml'',
            coefficients := Some [(0, 1), (5, 0)]\<rparr>)"
  by code_simp

text \<open>
  C8, amended. Building the table checks no scale. With a normalization file that can be
  read and a table that has a row for every predictor name, a pair \<open>(m, 0)\<close> that the
  file gives for predictor name \<open>i\<close>, when no extra feature has that name, is stored
  in row \<open>i\<close> as it is, and the build returns: a table that was built can hold the
  scale 0.
\<close>

theorem zero_scale_is_stored:
  assumes "normalization L = Some fname" and "yaml_load w fname = Some src"
    and "length (predictor_names L) \<le> num_predictors L"
    and "i < length (predictor_names L)"
    and "map_of src (predictor_names L ! i) = Some (m, 0)"
    and "\<forall>f \<in> set (extra_features L). get_feature_name f \<noteq> predictor_names L ! i"
  shows "\<exists>tab. load_coefficients L w = Inr (L\<lparr>coefficients := Some tab\<rparr>) \<and> tab ! i = (m, 0)"
proof -
  from load_coefficients_table[OF assms(1-3)] obtain tab where
    r: "load_coefficients L w = Inr (L\<lparr>coefficients := Some tab\<rparr>)"
    and el: "\<And>j. j < num_predictors L \<Longrightarrow> tab ! j =
              (if j < length (predictor_names L)
               then row_of (merge_coefficients src
                              (get_extra_features_normalization L (extra_features L)))
                      (predictor_names L ! j)
               else (0, 1))"
    by blast
  have "find (\<lambda>f. get_feature_name f = predictor_names L ! i) (rev (extra_features L)) = None"
    using assms(6) by (simp add: find_None_iff)
  then have "row_of (merge_coefficients src
                       (get_extra_features_normalization L (extra_features L)))
               (predictor_names L ! i) = (m, 0)"
    by (simp add: row_of_def merged_lookup assms(5))
  then have "tab ! i = (m, 0)" using el[of i] assms(3,4) by simp
  then show ?thesis using r by blast
qed

text \<open>C8, amended, at a one-row table.\<close>

theorem zero_scale_is_stored_witness:
  "\<exists>tab. load_coefficients
           (blank_loader\<lparr>num_predictors := 1, predictor_names := [''precipitation''],
                         normalization := Some ''zero.yml''\<rparr>) example_world =
         Inr (blank_loader\<lparr>num_predictors := 1, predictor_names := [''precipitation''],
                         normalization := Some ''zero.yml'', coefficients := Some tab\<rparr>) \<and>
         tab ! 0 = (5, 0)"
  using zero_scale_is_stored[of "blank_loader\<lparr>num_predictors := 1,
          predictor_names := [''precipitation''], normalization := Some ''zero.yml''\<rparr>"
          "''zero.yml''" example_world "[(''precipitation'', (5, 0))]" 0 5]
  by (simp add: blank_loader_def example_world_def)

text \<open>
  C2. The code at two inputs with an allow-list and an extra feature. When the allow-list
  has three names of which the archive has one, the constructed loader has two predictor
  names and a table of three rows. When the allow-list has the one name, the table has
  one row for two names and construction raises \<open>IndexError\<close>.
\<close>

theorem limit_predictors_table_mismatch:
  "Loader_init mismatch_args example_world =
     Inr (blank_loader\<lparr>filenames := [''data/a.nc''],
            extra_features := [\<lparr>feature_type = ''x'', feature_name = None\<rparr>],
            limit_predictors := Some [''air_temperature_2m'', ''altitude'', ''land_area_fraction''],
            leadtimes := [0, 1, 2, 3, 4],
            num_x_input := 2, num_y_input := 1, num_input_predictors := 1, num_predictors := 3,
            predictor_names_input := [''air_temperature_2m''],
            predictor_names := [''air_temperature_2m'', ''x''],
            normalization := Some ''norm.yml'',
            coefficients :=
              Some [(280, 10), (np_mean (np_arange 2), np_std (np_arange 2)), (0, 1)]\<rparr>) \<and>
   Loader_init overflow_args example_world = Inl IndexError"
  by code_simp

text \<open>
  C7, as the claim states it, fails: with patterns that match no file, construction
  raises \<open>IndexError\<close>, which is not the \<open>ValueError\<close> the loader uses for invalid
  options.
\<close>

theorem empty_file_list_counterexample:
  "Loader_init (default_args\<lparr>arg_filenames := [''nothing/*.nc'']\<rparr>) example_world =
     Inl IndexError \<and> \<not> is_ConfigError IndexError"
  by code_simp

text \<open>
  C7, amended. When the patterns resolve to no file, construction raises
  \<open>IndexError\<close> (from reading the first file name) and returns no loader.
\<close>

theorem empty_file_list_raises:
  assumes "concat (map (glob w) (arg_filenames args)) = []"
  shows "Loader_init args w = Inl IndexError"
  unfolding Loader_init_def Let_def assms by simp

text \<open>C7, amended, at two patterns that match nothing.\<close>

theorem empty_file_list_raises_witness:
  "Loader_init (default_args\<lparr>arg_filenames := [''nothing/*.nc'', ''nothing/*.nc4'']\<rparr>)
     example_world = Inl IndexError"
  using empty_file_list_raises[of example_world
          "default_args\<lparr>arg_filenames := [''nothing/*.nc'', ''nothing/*.nc4'']\<rparr>"]
  by (simp add: example_world_def default_args_def)

text \<open>
  C4. A loader that \<open>from_config\<close> returns for the lead-time range string \<open>1:3\<close> has
  the lead-time limit \<open>[1, 2]\<close> and \<open>num_leadtimes = 2\<close>. The arrays that a read of its
  first file returns have the shapes the metadata gives, with 2 lead times, and without an
  x or y range that read returns; whatever file is read, by \<open>parse_file\<close> or by
  \<open>load_file\<close> (also with fake data), the arrays returned have 2 lead times.
\<close>

theorem limit_leadtimes_range_string:
  assumes "arg_limit_leadtimes config = Some (RangeStr ''1:3'')"
    and "from_config config w = Inr L"
  shows "limit_leadtimes L = Some [1, 2] \<and> num_leadtimes L = 2 \<and>
         (\<forall>p t. parse_file L w (hd (filenames L)) = Inr (p, t) \<longrightarrow>
            shape p = [2, num_y_input L, num_x_input L, num_input_predictors L] \<and>
            shape t = [2, num_y_input L, num_x_input L, 1]) \<and>
         (arg_x_range config = None \<longrightarrow> arg_y_range config = None \<longrightarrow>
            (\<exists>p t. parse_file L w (hd (filenames L)) = Inr (p, t))) \<and>
         (\<forall>f p t. parse_file L w f = Inr (p, t) \<longrightarrow> hd (shape p) = 2 \<and> hd (shape t) = 2) \<and>
         (\<forall>i p t L'. load_file L w i = Inr ((p, t), L') \<longrightarrow>
            hd (shape p) = 2 \<and> hd (shape t) = 2)"
proof -
  from from_config_result[OF assms(2)] obtain xr yr lt where
    xr: "parse_range_opt (arg_x_range config) = Inr xr"
    and yr: "parse_range_opt (arg_y_range config) = Inr yr"
    and lt: "parse_range_opt (arg_limit_leadtimes config) = Inr lt"
    and init: "Loader_init
             \<lparr>arg_filenames = arg_filenames config, arg_limit_leadtimes = lt,
              arg_limit_predictors = arg_limit_predictors config,
              arg_x_range = xr, arg_y_range = yr,
              arg_normalization = arg_normalization config,
              arg_patch_size = arg_patch_size config,
              arg_predict_diff = arg_predict_diff config,
              arg_batch_size = arg_batch_size config, arg_prefetch = arg_prefetch config,
              arg_cache = arg_cache config,
              arg_num_parallel_calls = arg_num_parallel_calls config,
              arg_extra_features = arg_extra_features config,
              arg_debug = arg_debug config, arg_fake = arg_fake config\<rparr> w = Inr L"
      (is "Loader_init ?args w = _")
    by blast
  have "lt = Some [1, 2]"
    using lt by (simp add: assms(1) parse_range_opt_def parse_range_1_3 bind_r_def)
  then have l: "arg_limit_leadtimes ?args = Some [1, 2]" by simp
  have a: "limit_leadtimes L = Some [1, 2]"
    using Loader_init_result[OF init] l by simp
  note lim = reads_match_limit[OF init l]
  have n: "num_leadtimes L = 2" using lim(1) by simp
  have first: "shape p = [2, num_y_input L, num_x_input L, num_input_predictors L] \<and>
               shape t = [2, num_y_input L, num_x_input L, 1]"
    if "parse_file L w (hd (filenames L)) = Inr (p, t)" for p t
    using reads_match_metadata(1)[OF init that] by (simp add: n)
  have returns: "\<exists>p t. parse_file L w (hd (filenames L)) = Inr (p, t)"
    if "arg_x_range config = None" "arg_y_range config = None"
  proof -
    from xr yr that have "arg_x_range ?args = None" "arg_y_range ?args = None"
      by (simp_all add: parse_range_opt_def)
    from reads_match_metadata(2)[OF init this] show ?thesis .
  qed
  have pf: "hd (shape p) = 2 \<and> hd (shape t) = 2" if "parse_file L w f = Inr (p, t)" for f p t
    using lim(2)[OF that] by simp
  have lf: "hd (shape p) = 2 \<and> hd (shape t) = 2"
    if "load_file L w i = Inr ((p, t), L')" for i p t L'
    using lim(3)[OF that] by simp
  show ?thesis using a n first returns pf lf by blast
qed

lemma from_config_range_config: "from_config range_config example_world = Inr range_loader"
  by code_simp

text \<open>C4 at an archive with five lead times.\<close>

theorem limit_leadtimes_range_string_witness:
  "length (ds_leadtime archive_5) = 5 \<and>
   from_config range_config example_world = Inr range_loader \<and>
   num_leadtimes range_loader = 2 \<and>
   (\<exists>p t. parse_file range_loader example_world ''data/a.nc'' = Inr (p, t) \<and>
      shape p = [2, 1, 2, 2] \<and> shape t = [2, 1, 2, 1])"
proof -
  have c: "arg_limit_leadtimes range_config = Some (RangeStr ''1:3'')"
    by (simp add: range_config_def default_args_def)
  have xy: "arg_x_range range_config = None" "arg_y_range range_config = None"
    by (simp_all add: range_config_def default_args_def)
  have hd: "hd (filenames range_loader) = ''data/a.nc''"
    by (simp add: range_loader_def blank_loader_def)
  note main = limit_leadtimes_range_string[OF c from_config_range_config]
  from main xy obtain p t where
    r: "parse_file range_loader example_world (hd (filenames range_loader)) = Inr (p, t)"
    by blast
  from main r have "shape p = [2, num_y_input range_loader, num_x_input range_loader,
                       num_input_predictors range_loader] \<and>
            shape t = [2, num_y_input range_loader, num_x_input range_loader, 1]"
    by blast
  then have "shape p = [2, 1, 2, 2] \<and> shape t = [2, 1, 2, 1]"
    by (simp add: range_loader_def blank_loader_def)
  with r hd have "\<exists>p t. parse_file range_loader example_world ''data/a.nc'' = Inr (p, t) \<and>
      shape p = [2, 1, 2, 2] \<and> shape t = [2, 1, 2, 1]"
    by auto
  moreover from main have "num_leadtimes range_loader = 2" by blast
  moreover have "length (ds_leadtime archive_5) = 5" by (simp add: archive_5_def)
  ultimately show ?thesis using from_config_range_config by blast
qed

end
